theory Spec2Isabelle
  imports Main
begin

section \<open>Client-side xarray readers of tiled (tiled/client/xarray.py)\<close>

text \<open>
  The module composes four levels of readers: a leaf array reader (imported from
  \<^verbatim>\<open>.array\<close>), a Variable reader, a DataArray reader and a Dataset reader.
  Each level exists twice, a dask class and a subclass that only overrides the
  class attribute naming the reader class of the level below.

  Python dictionaries keep insertion order, so they are association lists here.
  The structure classes, the base class \<^verbatim>\<open>BaseArrayClientReader\<close> and the leaf
  array readers live in modules that are not part of the sources at hand; the
  xarray containers belong to an external library.
\<close>

subsection \<open>Dictionaries\<close>

type_synonym 'v dict = "(string \<times> 'v) list"

text \<open>\<^verbatim>\<open>d[k] = v\<close>: an existing key keeps its position, a new key goes last.\<close>

fun dict_set :: "'v dict \<Rightarrow> string \<Rightarrow> 'v \<Rightarrow> 'v dict" where
  "dict_set [] k v = [(k, v)]"
| "dict_set ((k', v') # d) k v =
     (if k' = k then (k, v) # d else (k', v') # dict_set d k v)"

text \<open>\<^verbatim>\<open>{**d, **e}\<close>: the entries of \<open>e\<close> are stored into \<open>d\<close> one by one.\<close>

definition dict_merge :: "'v dict \<Rightarrow> 'v dict \<Rightarrow> 'v dict" where
  "dict_merge d e = foldl (\<lambda>acc (k, v). dict_set acc k v) d e"

definition dict_get :: "'v dict \<Rightarrow> string \<Rightarrow> 'v option" where
  "dict_get d k = map_of d k"

definition keys :: "'v dict \<Rightarrow> string list" where
  "keys d = map fst d"

subsection \<open>Errors and effects\<close>

datatype error = TypeError | IndexError | KeyError | LeafError string

subsection \<open>Slices\<close>

text \<open>
  One entry of an index tuple: a \<^verbatim>\<open>slice(start, stop, step)\<close> object or an integer.
  \<^verbatim>\<open>builtins.slice(None, None)\<close> selects everything.
\<close>

datatype slice_item = Slice "int option" "int option" "int option" | Index int

definition select_all :: slice_item where
  "select_all = Slice None None None"

text \<open>
  The \<^verbatim>\<open>slice\<close> argument of a read: \<^verbatim>\<open>None\<close>, an iterable of entries, or one entry
  that is not iterable.
\<close>

datatype slice_arg = NoSlice | SliceSeq "slice_item list" | SliceOne slice_item

subsection \<open>Structures\<close>

text \<open>
  Modelled from the spec: the structure classes of \<^verbatim>\<open>..containers.xarray\<close> and the
  array structure they hold. Each record is the \<^verbatim>\<open>macro\<close> part that the readers
  project out; a shape is an ordered sequence of non-negative dimension sizes.
\<close>

type_synonym attrs = "string dict"

record ArrayStructure =
  chunks :: "nat list list"
  shape :: "nat list"

record VariableStructure =
  dims :: "string list"
  data :: ArrayStructure
  attrs :: attrs

record DataArrayStructure =
  variable :: VariableStructure
  coords :: "VariableStructure dict"
  name :: string

record DatasetStructure =
  data_vars :: "DataArrayStructure dict"
  ds_coords :: "VariableStructure dict"
  ds_attrs :: attrs

subsection \<open>Readers\<close>

text \<open>
  Modelled from the spec: \<^verbatim>\<open>BaseArrayClientReader\<close> keeps its constructor arguments
  and \<^verbatim>\<open>self.structure()\<close> returns the structure the reader holds, the field
  \<open>struct\<close> (retrieval is idempotent and cached by the base class). The transport
  handle is opaque.
\<close>

record 's reader =
  client :: nat
  path :: string
  metadata :: attrs
  params :: "string dict"
  struct :: 's
  route :: string

datatype array_reader_class = ClientDaskArrayReader | ClientArrayReader
datatype variable_reader_class = ClientDaskVariableReader | ClientVariableReader
datatype data_array_reader_class = ClientDaskDataArrayReader | ClientDataArrayReader
datatype dataset_reader_class = ClientDaskDatasetReader | ClientDatasetReader

text \<open>The class attributes; a subclass overrides exactly these.\<close>

fun ARRAY_READER :: "variable_reader_class \<Rightarrow> array_reader_class" where
  "ARRAY_READER ClientDaskVariableReader = ClientDaskArrayReader"
| "ARRAY_READER ClientVariableReader = ClientArrayReader"

fun VARIABLE_READER :: "data_array_reader_class \<Rightarrow> variable_reader_class" where
  "VARIABLE_READER ClientDaskDataArrayReader = ClientDaskVariableReader"
| "VARIABLE_READER ClientDataArrayReader = ClientVariableReader"

fun DATA_ARRAY_READER :: "dataset_reader_class \<Rightarrow> data_array_reader_class" where
  "DATA_ARRAY_READER ClientDaskDatasetReader = ClientDaskDataArrayReader"
| "DATA_ARRAY_READER ClientDatasetReader = ClientDataArrayReader"

fun DS_VARIABLE_READER :: "dataset_reader_class \<Rightarrow> variable_reader_class" where
  "DS_VARIABLE_READER ClientDaskDatasetReader = ClientDaskVariableReader"
| "DS_VARIABLE_READER ClientDatasetReader = ClientVariableReader"

text \<open>
  What a call leaves behind: every reader the module constructs, and every request
  for data made to a leaf array reader.
\<close>

datatype fetch_op = ReadOp slice_arg | ReadBlockOp "nat list" slice_arg

datatype event =
    NewArrayReader array_reader_class "ArrayStructure reader"
  | NewVariableReader variable_reader_class "VariableStructure reader"
  | NewDataArrayReader data_array_reader_class "DataArrayStructure reader"
  | Fetch array_reader_class "ArrayStructure reader" fetch_op

fun is_fetch :: "event \<Rightarrow> bool" where
  "is_fetch (Fetch c r op) = True"
| "is_fetch e = False"

text \<open>
  A computation yields the events it caused, in order, and either the exception it
  raised or its value.
\<close>

type_synonym 'a io = "event list \<times> (error + 'a)"

definition io_return :: "'a \<Rightarrow> 'a io" where
  "io_return x = ([], Inr x)"

definition io_raise :: "error \<Rightarrow> 'a io" where
  "io_raise e = ([], Inl e)"

definition io_bind :: "'a io \<Rightarrow> ('a \<Rightarrow> 'b io) \<Rightarrow> 'b io" where
  "io_bind m f =
     (case m of
        (l, Inl e) \<Rightarrow> (l, Inl e)
      | (l, Inr x) \<Rightarrow> (case f x of (l', y) \<Rightarrow> (l @ l', y)))"

definition events :: "'a io \<Rightarrow> event list" where
  "events m = fst m"

definition outcome :: "'a io \<Rightarrow> error + 'a" where
  "outcome m = snd m"

subsection \<open>The leaf array readers\<close>

text \<open>
  The classes \<^verbatim>\<open>ClientDaskArrayReader\<close> and \<^verbatim>\<open>ClientArrayReader\<close> are a parameter:
  a backend says, for a leaf class, the reader's constructor arguments and a
  request, which raw data comes back or which error is raised.
\<close>

type_synonym 'raw backend =
  "array_reader_class \<Rightarrow> ArrayStructure reader \<Rightarrow> fetch_op \<Rightarrow> error + 'raw"

definition new_array_reader ::
  "array_reader_class \<Rightarrow> ArrayStructure reader \<Rightarrow> (ArrayStructure reader) io" where
  "new_array_reader c r = ([NewArrayReader c r], Inr r)"

definition array_read ::
  "'raw backend \<Rightarrow> array_reader_class \<Rightarrow> ArrayStructure reader \<Rightarrow> slice_arg \<Rightarrow> 'raw io" where
  "array_read B c r sl = ([Fetch c r (ReadOp sl)], B c r (ReadOp sl))"

definition array_read_block ::
  "'raw backend \<Rightarrow> array_reader_class \<Rightarrow> ArrayStructure reader \<Rightarrow> nat list \<Rightarrow> slice_arg
     \<Rightarrow> 'raw io" where
  "array_read_block B c r block sl =
     ([Fetch c r (ReadBlockOp block sl)], B c r (ReadBlockOp block sl))"

subsection \<open>The xarray containers\<close>

text \<open>
  \<^verbatim>\<open>xarray.Variable\<close>, \<^verbatim>\<open>xarray.DataArray\<close> and \<^verbatim>\<open>xarray.Dataset\<close> are records of
  the arguments their constructors are given; the validation the library does on
  them is outside this model.
\<close>

record 'raw Variable =
  v_dims :: "string list"
  v_data :: 'raw
  v_attrs :: attrs

record 'raw DataArray =
  da_data :: "'raw Variable"
  da_coords :: "'raw Variable dict"
  da_name :: string

record 'raw Dataset =
  xds_data_vars :: "'raw DataArray dict"
  xds_coords :: "'raw Variable dict"
  xds_attrs :: attrs

text \<open>
  Modelled from the spec: \<^verbatim>\<open>Dataset.__getitem__\<close> of the external library, for a
  name. The assembled container exposes its data variables and its coordinates for
  lookup (a coordinate comes back as a DataArray of that name) and raises
  \<^verbatim>\<open>KeyError\<close> for any other name.
\<close>

definition Dataset_getitem :: "'raw Dataset \<Rightarrow> string \<Rightarrow> error + 'raw DataArray" where
  "Dataset_getitem ds k =
     (case dict_get (xds_data_vars ds) k of
        Some da \<Rightarrow> Inr da
      | None \<Rightarrow>
          (case dict_get (xds_coords ds) k of
             Some v \<Rightarrow> Inr \<lparr>da_data = v, da_coords = [(k, v)], da_name = k\<rparr>
           | None \<Rightarrow> Inl KeyError))"

subsection \<open>ClientDaskVariableReader\<close>

definition new_variable_reader ::
  "variable_reader_class \<Rightarrow> VariableStructure reader \<Rightarrow> (VariableStructure reader) io" where
  "new_variable_reader c r = ([NewVariableReader c r], Inr r)"

text \<open>
  The constructor arguments of the leaf reader, the same in \<^verbatim>\<open>read\<close> and
  \<^verbatim>\<open>read_block\<close>: the reader's own, with \<^verbatim>\<open>structure=structure.data\<close>.
\<close>

definition array_source :: "VariableStructure reader \<Rightarrow> ArrayStructure reader" where
  "array_source self =
     \<lparr>client = client self, path = path self, metadata = metadata self,
      params = params self, struct = data (struct self), route = route self\<rparr>"

definition variable_read_block ::
  "'raw backend \<Rightarrow> variable_reader_class \<Rightarrow> VariableStructure reader \<Rightarrow> nat list \<Rightarrow> slice_arg
     \<Rightarrow> 'raw io" where
  "variable_read_block B cls self block sl =
     io_bind (new_array_reader (ARRAY_READER cls) (array_source self))
       (\<lambda>a. array_read_block B (ARRAY_READER cls) a block sl)"

definition variable_read ::
  "'raw backend \<Rightarrow> variable_reader_class \<Rightarrow> VariableStructure reader \<Rightarrow> slice_arg
     \<Rightarrow> ('raw Variable) io" where
  "variable_read B cls self sl =
     (let st = struct self in
      io_bind (new_array_reader (ARRAY_READER cls) (array_source self))
        (\<lambda>a. io_bind (array_read B (ARRAY_READER cls) a sl)
           (\<lambda>d. io_return \<lparr>v_dims = dims st, v_data = d, v_attrs = attrs st\<rparr>)))"

definition variable_getitem ::
  "'raw backend \<Rightarrow> variable_reader_class \<Rightarrow> VariableStructure reader \<Rightarrow> slice_arg
     \<Rightarrow> ('raw Variable) io" where
  "variable_getitem B cls self sl = variable_read B cls self sl"

text \<open>\<^verbatim>\<open>shape[0]\<close> raises \<^verbatim>\<open>IndexError\<close> on the empty tuple.\<close>

definition first_dim :: "nat list \<Rightarrow> error + nat" where
  "first_dim sh = (case sh of [] \<Rightarrow> Inl IndexError | n # _ \<Rightarrow> Inr n)"

definition variable_len :: "VariableStructure reader \<Rightarrow> error + nat" where
  "variable_len self = first_dim (shape (data (struct self)))"

subsection \<open>ClientDaskDataArrayReader\<close>

text \<open>
  The reader of the main variable, the same in \<^verbatim>\<open>read\<close> and \<^verbatim>\<open>read_block\<close>: the
  reader's own arguments, with \<^verbatim>\<open>structure=variable\<close>.
\<close>

definition main_source :: "DataArrayStructure reader \<Rightarrow> VariableStructure
     \<Rightarrow> VariableStructure reader" where
  "main_source self var =
     \<lparr>client = client self, path = path self, metadata = metadata self,
      params = params self, struct = var, route = route self\<rparr>"

definition dataarray_read_block ::
  "'raw backend \<Rightarrow> data_array_reader_class \<Rightarrow> DataArrayStructure reader \<Rightarrow> nat list
     \<Rightarrow> slice_arg \<Rightarrow> 'raw io" where
  "dataarray_read_block B cls self block sl =
     (let st = struct self; var = variable st in
      io_bind (new_variable_reader (VARIABLE_READER cls) (main_source self var))
        (\<lambda>variable_source.
           variable_read_block B (VARIABLE_READER cls) variable_source block sl))"

text \<open>The coordinate reader of one \<^verbatim>\<open>(name, variable)\<close> item, as both loops build it.\<close>

definition coord_source :: "DataArrayStructure reader \<Rightarrow> string \<Rightarrow> VariableStructure
     \<Rightarrow> VariableStructure reader" where
  "coord_source self nm var =
     \<lparr>client = client self, path = path self, metadata = metadata self,
      params = dict_merge [(''coord'', nm)] (params self), struct = var,
      route = route self\<rparr>"

fun dataarray_coords_loop ::
  "data_array_reader_class \<Rightarrow> DataArrayStructure reader \<Rightarrow> VariableStructure dict
     \<Rightarrow> (VariableStructure reader) dict \<Rightarrow> ((VariableStructure reader) dict) io" where
  "dataarray_coords_loop cls self [] result = io_return result"
| "dataarray_coords_loop cls self ((nm, var) # rest) result =
     io_bind (new_variable_reader (VARIABLE_READER cls) (coord_source self nm var))
       (\<lambda>variable_source.
          dataarray_coords_loop cls self rest (dict_set result nm variable_source))"

definition dataarray_coords ::
  "data_array_reader_class \<Rightarrow> DataArrayStructure reader
     \<Rightarrow> ((VariableStructure reader) dict) io" where
  "dataarray_coords cls self =
     (let st = struct self in dataarray_coords_loop cls self (coords st) [])"

text \<open>
  \<^verbatim>\<open>itertools.zip_longest\<close>: the shorter side is padded with the fill value, here
  \<open>None\<close> on either side.
\<close>

fun zip_longest :: "'a list \<Rightarrow> 'b list \<Rightarrow> ('a option \<times> 'b option) list" where
  "zip_longest [] [] = []"
| "zip_longest (x # xs) [] = (Some x, None) # zip_longest xs []"
| "zip_longest [] (y # ys) = (None, Some y) # zip_longest [] ys"
| "zip_longest (x # xs) (y # ys) = (Some x, Some y) # zip_longest xs ys"

definition normalize_slice :: "slice_arg \<Rightarrow> slice_item list" where
  "normalize_slice sl =
     (case sl of NoSlice \<Rightarrow> [] | SliceSeq xs \<Rightarrow> xs | SliceOne x \<Rightarrow> [x])"

text \<open>
  The loop of \<^verbatim>\<open>read\<close>. The fill value is a slice object on both sides: as a
  \<open>coord_slice\<close> it selects everything, and where it stands for the item the
  unpacking \<^verbatim>\<open>(name, variable) = slice(None, None)\<close> raises \<^verbatim>\<open>TypeError\<close>.
\<close>

fun dataarray_read_loop ::
  "'raw backend \<Rightarrow> data_array_reader_class \<Rightarrow> DataArrayStructure reader
     \<Rightarrow> (slice_item option \<times> (string \<times> VariableStructure) option) list
     \<Rightarrow> ('raw Variable) dict \<Rightarrow> (('raw Variable) dict) io" where
  "dataarray_read_loop B cls self [] cs = io_return cs"
| "dataarray_read_loop B cls self ((coord_slice, item) # rest) cs =
     (case item of
        None \<Rightarrow> io_raise TypeError
      | Some (nm, var) \<Rightarrow>
          io_bind (new_variable_reader (VARIABLE_READER cls) (coord_source self nm var))
            (\<lambda>variable_source.
               io_bind (variable_read B (VARIABLE_READER cls) variable_source
                          (SliceOne (case coord_slice of None \<Rightarrow> select_all | Some s \<Rightarrow> s)))
                 (\<lambda>v. dataarray_read_loop B cls self rest (dict_set cs nm v))))"

definition dataarray_read ::
  "'raw backend \<Rightarrow> data_array_reader_class \<Rightarrow> DataArrayStructure reader \<Rightarrow> slice_arg
     \<Rightarrow> ('raw DataArray) io" where
  "dataarray_read B cls self sl =
     (let slice = normalize_slice sl; st = struct self; var = variable st in
      io_bind (new_variable_reader (VARIABLE_READER cls) (main_source self var))
        (\<lambda>variable_source.
           io_bind (variable_read B (VARIABLE_READER cls) variable_source (SliceSeq slice))
             (\<lambda>d. io_bind (dataarray_read_loop B cls self
                              (zip_longest slice (coords st)) [])
                     (\<lambda>cs. io_return \<lparr>da_data = d, da_coords = cs, da_name = name st\<rparr>))))"

definition dataarray_getitem ::
  "'raw backend \<Rightarrow> data_array_reader_class \<Rightarrow> DataArrayStructure reader \<Rightarrow> slice_arg
     \<Rightarrow> ('raw DataArray) io" where
  "dataarray_getitem B cls self sl = dataarray_read B cls self sl"

definition dataarray_len :: "DataArrayStructure reader \<Rightarrow> error + nat" where
  "dataarray_len self = first_dim (shape (data (variable (struct self))))"

subsection \<open>ClientDaskDatasetReader\<close>

definition new_data_array_reader ::
  "data_array_reader_class \<Rightarrow> DataArrayStructure reader \<Rightarrow> (DataArrayStructure reader) io" where
  "new_data_array_reader c r = ([NewDataArrayReader c r], Inr r)"

text \<open>
  \<^verbatim>\<open>(columns is not None) and (name not in columns)\<close>, for \<^verbatim>\<open>columns\<close> a container
  of names that can be searched again and again (a list, a tuple, a set).
\<close>

definition skipped :: "string list option \<Rightarrow> string \<Rightarrow> bool" where
  "skipped columns nm = (case columns of None \<Rightarrow> False | Some cs \<Rightarrow> nm \<notin> set cs)"

definition data_var_source :: "DatasetStructure reader \<Rightarrow> string \<Rightarrow> DataArrayStructure
     \<Rightarrow> DataArrayStructure reader" where
  "data_var_source self nm data_array =
     \<lparr>client = client self, path = path self, metadata = metadata self,
      params = dict_merge [(''variable'', nm)] (params self), struct = data_array,
      route = route self\<rparr>"

definition ds_coord_source :: "DatasetStructure reader \<Rightarrow> string \<Rightarrow> VariableStructure
     \<Rightarrow> VariableStructure reader" where
  "ds_coord_source self nm var =
     \<lparr>client = client self, path = path self, metadata = metadata self,
      params = dict_merge [(''variable'', nm)] (params self), struct = var,
      route = route self\<rparr>"

fun build_data_vars_loop ::
  "dataset_reader_class \<Rightarrow> DatasetStructure reader \<Rightarrow> DataArrayStructure dict
     \<Rightarrow> string list option \<Rightarrow> (DataArrayStructure reader) dict
     \<Rightarrow> ((DataArrayStructure reader) dict) io" where
  "build_data_vars_loop cls self [] columns dv = io_return dv"
| "build_data_vars_loop cls self ((nm, data_array) # rest) columns dv =
     (if skipped columns nm then build_data_vars_loop cls self rest columns dv
      else io_bind (new_data_array_reader (DATA_ARRAY_READER cls)
                      (data_var_source self nm data_array))
             (\<lambda>data_array_source.
                build_data_vars_loop cls self rest columns (dict_set dv nm data_array_source)))"

definition build_data_vars ::
  "dataset_reader_class \<Rightarrow> DatasetStructure reader \<Rightarrow> DatasetStructure
     \<Rightarrow> string list option \<Rightarrow> ((DataArrayStructure reader) dict) io" where
  "build_data_vars cls self st columns =
     build_data_vars_loop cls self (data_vars st) columns []"

fun build_coords_loop ::
  "dataset_reader_class \<Rightarrow> DatasetStructure reader \<Rightarrow> VariableStructure dict
     \<Rightarrow> string list option \<Rightarrow> (VariableStructure reader) dict
     \<Rightarrow> ((VariableStructure reader) dict) io" where
  "build_coords_loop cls self [] columns co = io_return co"
| "build_coords_loop cls self ((nm, var) # rest) columns co =
     (if skipped columns nm then build_coords_loop cls self rest columns co
      else io_bind (new_variable_reader (DS_VARIABLE_READER cls) (ds_coord_source self nm var))
             (\<lambda>variable_source.
                build_coords_loop cls self rest columns (dict_set co nm variable_source)))"

definition build_coords ::
  "dataset_reader_class \<Rightarrow> DatasetStructure reader \<Rightarrow> DatasetStructure
     \<Rightarrow> string list option \<Rightarrow> ((VariableStructure reader) dict) io" where
  "build_coords cls self st columns =
     build_coords_loop cls self (ds_coords st) columns []"

definition dataset_data_vars ::
  "dataset_reader_class \<Rightarrow> DatasetStructure reader \<Rightarrow> ((DataArrayStructure reader) dict) io" where
  "dataset_data_vars cls self = (let st = struct self in build_data_vars cls self st None)"

definition dataset_coords ::
  "dataset_reader_class \<Rightarrow> DatasetStructure reader \<Rightarrow> ((VariableStructure reader) dict) io" where
  "dataset_coords cls self = (let st = struct self in build_coords cls self st None)"

text \<open>The two dictionary comprehensions \<^verbatim>\<open>{k: v.read() for k, v in ...items()}\<close>.\<close>

fun read_data_vars ::
  "'raw backend \<Rightarrow> dataset_reader_class \<Rightarrow> (DataArrayStructure reader) dict
     \<Rightarrow> ('raw DataArray) dict \<Rightarrow> (('raw DataArray) dict) io" where
  "read_data_vars B cls [] acc = io_return acc"
| "read_data_vars B cls ((k, v) # rest) acc =
     io_bind (dataarray_read B (DATA_ARRAY_READER cls) v NoSlice)
       (\<lambda>x. read_data_vars B cls rest (dict_set acc k x))"

fun read_coords ::
  "'raw backend \<Rightarrow> dataset_reader_class \<Rightarrow> (VariableStructure reader) dict
     \<Rightarrow> ('raw Variable) dict \<Rightarrow> (('raw Variable) dict) io" where
  "read_coords B cls [] acc = io_return acc"
| "read_coords B cls ((k, v) # rest) acc =
     io_bind (variable_read B (DS_VARIABLE_READER cls) v NoSlice)
       (\<lambda>x. read_coords B cls rest (dict_set acc k x))"

definition dataset_read ::
  "'raw backend \<Rightarrow> dataset_reader_class \<Rightarrow> DatasetStructure reader \<Rightarrow> string list option
     \<Rightarrow> ('raw Dataset) io" where
  "dataset_read B cls self columns =
     (let st = struct self in
      io_bind (build_data_vars cls self st columns)
        (\<lambda>dv. io_bind (build_coords cls self st columns)
           (\<lambda>co. io_bind (read_data_vars B cls dv [])
              (\<lambda>dvr. io_bind (read_coords B cls co [])
                 (\<lambda>cor. io_return
                    \<lparr>xds_data_vars = dvr, xds_coords = cor, xds_attrs = ds_attrs st\<rparr>)))))"

text \<open>The key of \<^verbatim>\<open>__getitem__\<close> is a string or an iterable of names.\<close>

datatype key = StrKey string | ColumnsKey "string list"

datatype 'raw item = ADataArray "'raw DataArray" | ADataset "'raw Dataset"

definition dataset_getitem ::
  "'raw backend \<Rightarrow> dataset_reader_class \<Rightarrow> DatasetStructure reader \<Rightarrow> key \<Rightarrow> ('raw item) io" where
  "dataset_getitem B cls self columns =
     (case columns of
        StrKey k \<Rightarrow>
          io_bind (dataset_read B cls self (Some [k]))
            (\<lambda>ds. case Dataset_getitem ds k of
                     Inl e \<Rightarrow> io_raise e
                   | Inr da \<Rightarrow> io_return (ADataArray da))
      | ColumnsKey ks \<Rightarrow>
          io_bind (dataset_read B cls self (Some ks)) (\<lambda>ds. io_return (ADataset ds)))"

text \<open>\<^verbatim>\<open>yield from\<close> a dictionary yields its keys in order.\<close>

definition dataset_iter :: "DatasetStructure reader \<Rightarrow> string list" where
  "dataset_iter self = keys (data_vars (struct self))"

subsection \<open>Notions used to state the properties\<close>

text \<open>The items of a structure mapping that a column filter lets through.\<close>

definition selected :: "string list option \<Rightarrow> 'v dict \<Rightarrow> 'v dict" where
  "selected columns items = filter (\<lambda>(nm, _). \<not> skipped columns nm) items"

text \<open>A Dataset structure with the unselected entries of both mappings removed.\<close>

definition restrict_columns :: "string list \<Rightarrow> DatasetStructure \<Rightarrow> DatasetStructure" where
  "restrict_columns cs st =
     \<lparr>data_vars = selected (Some cs) (data_vars st),
      ds_coords = selected (Some cs) (ds_coords st), ds_attrs = ds_attrs st\<rparr>"

text \<open>
  The specification of \<^verbatim>\<open>DataArrayReader.read\<close>, in its words: each coordinate, in
  declared order, is paired with the corresponding entry of the slice tuple, and
  a position past the end of the tuple selects everything.
\<close>

definition spec_pair_coords :: "slice_item list \<Rightarrow> 'b list \<Rightarrow> (slice_item \<times> 'b) list" where
  "spec_pair_coords tuple cs =
     zip (tuple @ replicate (length cs - length tuple) select_all) cs"

fun spec_read_coords ::
  "'raw backend \<Rightarrow> data_array_reader_class \<Rightarrow> DataArrayStructure reader
     \<Rightarrow> (slice_item \<times> string \<times> VariableStructure) list
     \<Rightarrow> ('raw Variable) dict \<Rightarrow> (('raw Variable) dict) io" where
  "spec_read_coords B cls self [] cs = io_return cs"
| "spec_read_coords B cls self ((s, nm, var) # rest) cs =
     io_bind (new_variable_reader (VARIABLE_READER cls) (coord_source self nm var))
       (\<lambda>src. io_bind (variable_read B (VARIABLE_READER cls) src (SliceOne s))
          (\<lambda>v. spec_read_coords B cls self rest (dict_set cs nm v)))"

definition spec_dataarray_read ::
  "'raw backend \<Rightarrow> data_array_reader_class \<Rightarrow> DataArrayStructure reader \<Rightarrow> slice_arg
     \<Rightarrow> ('raw DataArray) io" where
  "spec_dataarray_read B cls self sl =
     (let tuple = (case sl of NoSlice \<Rightarrow> [] | SliceOne x \<Rightarrow> [x] | SliceSeq xs \<Rightarrow> xs) in
      io_bind (new_variable_reader (VARIABLE_READER cls)
                 (main_source self (variable (struct self))))
        (\<lambda>src. io_bind (variable_read B (VARIABLE_READER cls) src (SliceSeq tuple))
           (\<lambda>d. io_bind (spec_read_coords B cls self
                            (spec_pair_coords tuple (coords (struct self))) [])
                   (\<lambda>cs. io_return
                      \<lparr>da_data = d, da_coords = cs, da_name = name (struct self)\<rparr>))))"

text \<open>
  What the reads assemble when the leaf reader answers the request \<open>(c, r, op)\<close>
  with the raw data \<open>f c r op\<close>.
\<close>

definition answered_variable ::
  "(array_reader_class \<Rightarrow> ArrayStructure reader \<Rightarrow> fetch_op \<Rightarrow> 'raw) \<Rightarrow> variable_reader_class
     \<Rightarrow> VariableStructure reader \<Rightarrow> slice_arg \<Rightarrow> 'raw Variable" where
  "answered_variable f cls src sl =
     \<lparr>v_dims = dims (struct src),
      v_data = f (ARRAY_READER cls) (array_source src) (ReadOp sl),
      v_attrs = attrs (struct src)\<rparr>"

definition answered_dataarray ::
  "(array_reader_class \<Rightarrow> ArrayStructure reader \<Rightarrow> fetch_op \<Rightarrow> 'raw) \<Rightarrow> data_array_reader_class
     \<Rightarrow> DataArrayStructure reader \<Rightarrow> slice_item list \<Rightarrow> 'raw DataArray" where
  "answered_dataarray f cls self tuple =
     \<lparr>da_data = answered_variable f (VARIABLE_READER cls)
                  (main_source self (variable (struct self))) (SliceSeq tuple),
      da_coords = dict_merge []
        (map (\<lambda>(s, nm, var).
                (nm, answered_variable f (VARIABLE_READER cls) (coord_source self nm var)
                       (SliceOne s)))
           (spec_pair_coords tuple (coords (struct self)))),
      da_name = name (struct self)\<rparr>"

definition answered_dataset ::
  "(array_reader_class \<Rightarrow> ArrayStructure reader \<Rightarrow> fetch_op \<Rightarrow> 'raw) \<Rightarrow> dataset_reader_class
     \<Rightarrow> DatasetStructure reader \<Rightarrow> string list option \<Rightarrow> 'raw Dataset" where
  "answered_dataset f cls self columns =
     \<lparr>xds_data_vars =
        map (\<lambda>(nm, s). (nm, answered_dataarray f (DATA_ARRAY_READER cls)
                                (data_var_source self nm s) []))
          (selected columns (data_vars (struct self))),
      xds_coords =
        map (\<lambda>(nm, s). (nm, answered_variable f (DS_VARIABLE_READER cls)
                                (ds_coord_source self nm s) NoSlice))
          (selected columns (ds_coords (struct self))),
      xds_attrs = ds_attrs (struct self)\<rparr>"

text \<open>
  Two computations are the same composition when they yield the same outcome and
  the same events once the reader classes named in the events are forgotten.
\<close>

fun untagged :: "event \<Rightarrow> event" where
  "untagged (NewArrayReader c r) = NewArrayReader ClientDaskArrayReader r"
| "untagged (NewVariableReader c r) = NewVariableReader ClientDaskVariableReader r"
| "untagged (NewDataArrayReader c r) = NewDataArrayReader ClientDaskDataArrayReader r"
| "untagged (Fetch c r op) = Fetch ClientDaskArrayReader r op"

definition same_composition :: "'a io \<Rightarrow> 'a io \<Rightarrow> bool" where
  "same_composition m1 m2 \<longleftrightarrow>
     map untagged (events m1) = map untagged (events m2) \<and> outcome m1 = outcome m2"

subsection \<open>Example structures\<close>

definition example_variable :: "string list \<Rightarrow> nat list \<Rightarrow> VariableStructure" where
  "example_variable ds sh =
     \<lparr>dims = ds, data = \<lparr>chunks = map (\<lambda>n. [n]) sh, shape = sh\<rparr>, attrs = []\<rparr>"

text \<open>A data variable \<^verbatim>\<open>temp\<close> of dims x, y with coordinates x of length 10 and y of length 5.\<close>

definition example_temp :: DataArrayStructure where
  "example_temp =
     \<lparr>variable = example_variable [''x'', ''y''] [10, 5],
      coords = [(''x'', example_variable [''x''] [10]), (''y'', example_variable [''y''] [5])],
      name = ''temp''\<rparr>"

text \<open>A two-dimensional data variable that carries a coordinate for its first dimension only.\<close>

definition example_image :: DataArrayStructure where
  "example_image =
     \<lparr>variable = example_variable [''row'', ''col''] [4, 3],
      coords = [(''row'', example_variable [''row''] [4])],
      name = ''image''\<rparr>"


definition example_dataset :: DatasetStructure where
  "example_dataset =
     \<lparr>data_vars = [(''temp'', example_temp)],
      ds_coords = [(''x'', example_variable [''x''] [10]), (''y'', example_variable [''y''] [5])],
      ds_attrs = [(''title'', ''demo'')]\<rparr>"

definition example_reader :: "string dict \<Rightarrow> 's \<Rightarrow> 's reader" where
  "example_reader ps st =
     \<lparr>client = 0, path = ''/node'', metadata = [], params = ps, struct = st,
      route = ''/block''\<rparr>"


text \<open>A leaf reader that answers every request with the request itself.\<close>

definition echo :: "array_reader_class \<Rightarrow> ArrayStructure reader \<Rightarrow> fetch_op
     \<Rightarrow> string dict \<times> fetch_op" where
  "echo c r op = (params r, op)"

definition echo_backend :: "(string dict \<times> fetch_op) backend" where
  "echo_backend c r op = Inr (echo c r op)"

section \<open>Properties\<close>

subsection \<open>Computations and dictionaries\<close>

lemma io_bind_return: "io_bind (io_return x) f = f x"
  by (simp add: io_bind_def io_return_def split: prod.splits)

lemma io_bind_raise: "io_bind (io_raise e) f = io_raise e"
  by (simp add: io_bind_def io_raise_def)

lemma io_bind_pair: "io_bind (l, Inr x) f = (l @ fst (f x), snd (f x))"
  by (simp add: io_bind_def split: prod.splits)

lemma io_bind_fail: "io_bind (l, Inl e) f = (l, Inl e)"
  by (simp add: io_bind_def)

lemma events_bind:
  "events (io_bind m f) =
     (case outcome m of Inl e \<Rightarrow> events m | Inr x \<Rightarrow> events m @ events (f x))"
  by (cases m) (simp add: io_bind_def events_def outcome_def split: sum.splits prod.splits)

lemma outcome_bind:
  "outcome (io_bind m f) = (case outcome m of Inl e \<Rightarrow> Inl e | Inr x \<Rightarrow> outcome (f x))"
  by (cases m) (simp add: io_bind_def outcome_def split: sum.splits prod.splits)

lemma map_of_dict_set: "map_of (dict_set d k v) = (map_of d)(k \<mapsto> v)"
  by (induction d k v rule: dict_set.induct) auto

lemma keys_dict_set:
  "keys (dict_set d k v) = (if k \<in> set (keys d) then keys d else keys d @ [k])"
  by (induction d k v rule: dict_set.induct) (auto simp: keys_def)

lemma dict_set_fresh: "k \<notin> set (keys d) \<Longrightarrow> dict_set d k v = d @ [(k, v)]"
  by (induction d k v rule: dict_set.induct) (auto simp: keys_def)

lemma dict_merge_Nil: "dict_merge d [] = d"
  by (simp add: dict_merge_def)

lemma dict_merge_Cons: "dict_merge d ((k, v) # e) = dict_merge (dict_set d k v) e"
  by (simp add: dict_merge_def)

lemma dict_merge_distinct:
  "distinct (keys e) \<Longrightarrow> set (keys d) \<inter> set (keys e) = {} \<Longrightarrow> dict_merge d e = d @ e"
proof (induction e arbitrary: d)
  case Nil
  then show ?case by (simp add: dict_merge_Nil)
next
  case (Cons a e)
  obtain k v where a: "a = (k, v)" by (cases a)
  from Cons.prems have fresh: "k \<notin> set (keys d)" and d: "distinct (keys e)"
    and k: "k \<notin> set (keys e)" and disj: "set (keys d) \<inter> set (keys e) = {}"
    by (auto simp: a keys_def)
  have "dict_merge (d @ [(k, v)]) e = (d @ [(k, v)]) @ e"
    using d k disj by (intro Cons.IH) (auto simp: keys_def)
  then show ?case by (simp add: a dict_merge_Cons dict_set_fresh [OF fresh])
qed

lemma map_of_dict_merge: "map_of (dict_merge d e) = map_of d ++ map_of (rev e)"
proof (induction e arbitrary: d)
  case Nil
  then show ?case by (simp add: dict_merge_Nil)
next
  case (Cons a e)
  obtain k v where a: "a = (k, v)" by (cases a)
  show ?case
    by (simp add: a dict_merge_Cons Cons.IH map_of_dict_set)
      (rule ext, simp add: map_add_def split: option.splits)
qed

subsection \<open>The loops that construct readers\<close>

lemma selected_None: "selected None items = items"
  by (simp add: selected_def skipped_def case_prod_unfold)

lemma selected_Nil: "selected columns [] = []"
  by (simp add: selected_def)

lemma selected_Cons:
  "selected columns ((nm, s) # items) =
     (if skipped columns nm then selected columns items else (nm, s) # selected columns items)"
  by (simp add: selected_def)

lemma build_data_vars_loop_eq:
  "build_data_vars_loop cls self items columns dv =
     (map (\<lambda>(nm, s). NewDataArrayReader (DATA_ARRAY_READER cls) (data_var_source self nm s))
        (selected columns items),
      Inr (dict_merge dv (map (\<lambda>(nm, s). (nm, data_var_source self nm s))
             (selected columns items))))"
proof (induction items arbitrary: dv)
  case Nil
  then show ?case by (simp add: selected_Nil io_return_def dict_merge_Nil)
next
  case (Cons a items)
  obtain nm s where a: "a = (nm, s)" by (cases a)
  show ?case
    by (simp add: a selected_Cons Cons.IH new_data_array_reader_def io_bind_pair
        dict_merge_Cons)
qed

lemma build_coords_loop_eq:
  "build_coords_loop cls self items columns co =
     (map (\<lambda>(nm, s). NewVariableReader (DS_VARIABLE_READER cls) (ds_coord_source self nm s))
        (selected columns items),
      Inr (dict_merge co (map (\<lambda>(nm, s). (nm, ds_coord_source self nm s))
             (selected columns items))))"
proof (induction items arbitrary: co)
  case Nil
  then show ?case by (simp add: selected_Nil io_return_def dict_merge_Nil)
next
  case (Cons a items)
  obtain nm s where a: "a = (nm, s)" by (cases a)
  show ?case
    by (simp add: a selected_Cons Cons.IH new_variable_reader_def io_bind_pair
        dict_merge_Cons)
qed

lemma dataarray_coords_loop_eq:
  "dataarray_coords_loop cls self items result =
     (map (\<lambda>(nm, s). NewVariableReader (VARIABLE_READER cls) (coord_source self nm s)) items,
      Inr (dict_merge result (map (\<lambda>(nm, s). (nm, coord_source self nm s)) items)))"
proof (induction items arbitrary: result)
  case Nil
  then show ?case by (simp add: io_return_def dict_merge_Nil)
next
  case (Cons a items)
  obtain nm s where a: "a = (nm, s)" by (cases a)
  show ?case
    by (simp add: a Cons.IH new_variable_reader_def io_bind_pair dict_merge_Cons)
qed

lemma variable_read_eq:
  "variable_read B cls self sl =
     ([NewArrayReader (ARRAY_READER cls) (array_source self),
       Fetch (ARRAY_READER cls) (array_source self) (ReadOp sl)],
      case B (ARRAY_READER cls) (array_source self) (ReadOp sl) of
        Inl e \<Rightarrow> Inl e
      | Inr d \<Rightarrow> Inr \<lparr>v_dims = dims (struct self), v_data = d, v_attrs = attrs (struct self)\<rparr>)"
  by (simp add: variable_read_def Let_def new_array_reader_def array_read_def io_bind_def
      io_return_def split: sum.splits)

lemma variable_read_block_eq:
  "variable_read_block B cls self block sl =
     ([NewArrayReader (ARRAY_READER cls) (array_source self),
       Fetch (ARRAY_READER cls) (array_source self) (ReadBlockOp block sl)],
      B (ARRAY_READER cls) (array_source self) (ReadBlockOp block sl))"
  by (simp add: variable_read_block_def new_array_reader_def array_read_block_def io_bind_def
      split: sum.splits)

subsection \<open>Reading a DataArray\<close>

lemma outcome_pair: "outcome (l, r) = r"
  by (simp add: outcome_def)

lemma events_pair: "events (l, r) = l"
  by (simp add: events_def)

lemma outcome_return: "outcome (io_return x) = Inr x"
  by (simp add: outcome_def io_return_def)

lemma outcome_raise: "outcome (io_raise e) = Inl e"
  by (simp add: outcome_def io_raise_def)

lemma spec_pair_coords_Nil: "spec_pair_coords tuple [] = []"
  by (simp add: spec_pair_coords_def)

lemma spec_pair_coords_Cons:
  "spec_pair_coords (x # xs) (y # ys) = (x, y) # spec_pair_coords xs ys"
  by (simp add: spec_pair_coords_def)

lemma spec_pair_coords_fill:
  "spec_pair_coords [] (y # ys) = (select_all, y) # spec_pair_coords [] ys"
  by (simp add: spec_pair_coords_def)

lemma read_loop_refines:
  "length tuple \<le> length cs \<Longrightarrow>
   dataarray_read_loop B cls self (zip_longest tuple cs) acc =
   spec_read_coords B cls self (spec_pair_coords tuple cs) acc"
proof (induction tuple cs arbitrary: acc rule: zip_longest.induct)
  case 1
  then show ?case by (simp add: spec_pair_coords_Nil)
next
  case (2 x xs)
  then show ?case by simp
next
  case (3 y ys)
  obtain nm var where y: "y = (nm, var)" by (cases y)
  from 3 show ?case by (simp add: y spec_pair_coords_fill)
next
  case (4 x xs y ys)
  obtain nm var where y: "y = (nm, var)" by (cases y)
  from 4 show ?case by (simp add: y spec_pair_coords_Cons)
qed

lemma dataarray_read_refines:
  "length (normalize_slice sl) \<le> length (coords (struct self)) \<Longrightarrow>
   dataarray_read B cls self sl = spec_dataarray_read B cls self sl"
  by (cases sl)
    (simp_all add: dataarray_read_def spec_dataarray_read_def normalize_slice_def Let_def
      read_loop_refines)

lemma variable_read_answered:
  "variable_read (\<lambda>c r op. Inr (f c r op)) cls src sl =
     ([NewArrayReader (ARRAY_READER cls) (array_source src),
       Fetch (ARRAY_READER cls) (array_source src) (ReadOp sl)],
      Inr (answered_variable f cls src sl))"
  by (simp add: variable_read_eq answered_variable_def)

lemma spec_read_coords_answered:
  "outcome (spec_read_coords (\<lambda>c r op. Inr (f c r op)) cls self pairs acc) =
     Inr (dict_merge acc
            (map (\<lambda>(s, nm, var).
                    (nm, answered_variable f (VARIABLE_READER cls) (coord_source self nm var)
                           (SliceOne s))) pairs))"
proof (induction pairs arbitrary: acc)
  case Nil
  then show ?case by (simp add: outcome_return dict_merge_Nil)
next
  case (Cons a pairs)
  obtain s nm var where a: "a = (s, nm, var)" by (cases a)
  show ?case
    by (simp add: a outcome_bind new_variable_reader_def variable_read_answered outcome_pair
        Cons.IH dict_merge_Cons)
qed

lemma spec_dataarray_read_answered:
  "outcome (spec_dataarray_read (\<lambda>c r op. Inr (f c r op)) cls self sl) =
     Inr (answered_dataarray f cls self (normalize_slice sl))"
  by (cases sl)
    (simp_all add: spec_dataarray_read_def outcome_bind new_variable_reader_def
      variable_read_answered spec_read_coords_answered answered_dataarray_def
      normalize_slice_def outcome_return outcome_pair Let_def)

lemma read_loop_too_long:
  "length cs < length tuple \<Longrightarrow>
   \<exists>e. outcome (dataarray_read_loop B cls self (zip_longest tuple cs) acc) = Inl e"
proof (induction tuple cs arbitrary: acc rule: zip_longest.induct)
  case 1
  then show ?case by simp
next
  case (2 x xs)
  then show ?case by (simp add: outcome_raise)
next
  case (3 y ys)
  then show ?case by simp
next
  case (4 x xs y ys)
  obtain nm var where y: "y = (nm, var)" by (cases y)
  from 4 show ?case
    by (simp add: y outcome_bind new_variable_reader_def outcome_pair split: sum.splits)
qed

lemma read_loop_too_long_answered:
  "length cs < length tuple \<Longrightarrow>
   outcome (dataarray_read_loop (\<lambda>c r op. Inr (f c r op)) cls self (zip_longest tuple cs) acc)
     = Inl TypeError"
proof (induction tuple cs arbitrary: acc rule: zip_longest.induct)
  case 1
  then show ?case by simp
next
  case (2 x xs)
  then show ?case by (simp add: outcome_raise)
next
  case (3 y ys)
  then show ?case by simp
next
  case (4 x xs y ys)
  obtain nm var where y: "y = (nm, var)" by (cases y)
  from 4 show ?case
    by (simp add: y outcome_bind new_variable_reader_def variable_read_answered outcome_pair)
qed

lemma dataarray_read_too_long:
  "length (coords (struct self)) < length (normalize_slice sl) \<Longrightarrow>
   \<exists>e. outcome (dataarray_read B cls self sl) = Inl e"
  using read_loop_too_long [of "coords (struct self)" "normalize_slice sl" B cls self "[]"]
  by (auto simp: dataarray_read_def Let_def outcome_bind new_variable_reader_def outcome_pair
      split: sum.splits)

lemma dataarray_read_too_long_answered:
  "length (coords (struct self)) < length (normalize_slice sl) \<Longrightarrow>
   outcome (dataarray_read (\<lambda>c r op. Inr (f c r op)) cls self sl) = Inl TypeError"
  by (simp add: dataarray_read_def Let_def outcome_bind new_variable_reader_def outcome_pair
      variable_read_answered read_loop_too_long_answered)

lemma echo_backend_eq: "echo_backend = (\<lambda>c r op. Inr (echo c r op))"
  by (rule ext)+ (simp add: echo_backend_def)

subsection \<open>Reading a Dataset\<close>

lemma keys_Nil: "keys [] = []"
  by (simp add: keys_def)

lemma keys_Cons: "keys ((k, v) # d) = k # keys d"
  by (simp add: keys_def)

lemma keys_append: "keys (d @ e) = keys d @ keys e"
  by (simp add: keys_def)

lemma keys_map_entry: "keys (map (\<lambda>(nm, s). (nm, g nm s)) items) = keys items"
  by (induction items) (auto simp: keys_def)

lemma keys_selected: "keys (selected columns items) = filter (\<lambda>nm. \<not> skipped columns nm) (keys items)"
  by (induction items) (auto simp: keys_def selected_def)

lemma distinct_selected: "distinct (keys items) \<Longrightarrow> distinct (keys (selected columns items))"
  by (simp add: keys_selected)

lemma dict_merge_empty: "distinct (keys e) \<Longrightarrow> dict_merge [] e = e"
  using dict_merge_distinct [of e "[]"] by (simp add: keys_Nil)

lemma dict_merge_map_empty:
  "distinct (keys e) \<Longrightarrow> (\<And>x. fst (h x) = fst x) \<Longrightarrow> dict_merge [] (map h e) = map h e"
  by (rule dict_merge_empty) (simp add: keys_def comp_def)

lemma dataarray_read_answered:
  "length (normalize_slice sl) \<le> length (coords (struct self)) \<Longrightarrow>
   outcome (dataarray_read (\<lambda>c r op. Inr (f c r op)) cls self sl) =
     Inr (answered_dataarray f cls self (normalize_slice sl))"
  by (simp add: dataarray_read_refines spec_dataarray_read_answered)

lemma read_data_vars_answered:
  "outcome (read_data_vars (\<lambda>c r op. Inr (f c r op)) cls dv acc) =
     Inr (dict_merge acc
            (map (\<lambda>(k, v). (k, answered_dataarray f (DATA_ARRAY_READER cls) v [])) dv))"
proof (induction dv arbitrary: acc)
  case Nil
  then show ?case by (simp add: outcome_return dict_merge_Nil)
next
  case (Cons a dv)
  obtain k v where a: "a = (k, v)" by (cases a)
  have "outcome (dataarray_read (\<lambda>c r op. Inr (f c r op)) (DATA_ARRAY_READER cls) v NoSlice) =
          Inr (answered_dataarray f (DATA_ARRAY_READER cls) v [])"
    using dataarray_read_answered [of NoSlice v f "DATA_ARRAY_READER cls"]
    by (simp add: normalize_slice_def)
  then show ?case
    by (simp add: a outcome_bind Cons.IH dict_merge_Cons)
qed

lemma read_coords_answered:
  "outcome (read_coords (\<lambda>c r op. Inr (f c r op)) cls co acc) =
     Inr (dict_merge acc
            (map (\<lambda>(k, v). (k, answered_variable f (DS_VARIABLE_READER cls) v NoSlice)) co))"
proof (induction co arbitrary: acc)
  case Nil
  then show ?case by (simp add: outcome_return dict_merge_Nil)
next
  case (Cons a co)
  obtain k v where a: "a = (k, v)" by (cases a)
  show ?case
    by (simp add: a outcome_bind variable_read_answered outcome_pair Cons.IH dict_merge_Cons)
qed

lemma build_data_vars_eq:
  "build_data_vars cls self st columns =
     (map (\<lambda>(nm, s). NewDataArrayReader (DATA_ARRAY_READER cls) (data_var_source self nm s))
        (selected columns (data_vars st)),
      Inr (dict_merge [] (map (\<lambda>(nm, s). (nm, data_var_source self nm s))
             (selected columns (data_vars st)))))"
  by (simp add: build_data_vars_def build_data_vars_loop_eq)

lemma build_coords_eq:
  "build_coords cls self st columns =
     (map (\<lambda>(nm, s). NewVariableReader (DS_VARIABLE_READER cls) (ds_coord_source self nm s))
        (selected columns (ds_coords st)),
      Inr (dict_merge [] (map (\<lambda>(nm, s). (nm, ds_coord_source self nm s))
             (selected columns (ds_coords st)))))"
  by (simp add: build_coords_def build_coords_loop_eq)

lemma dataset_read_answered:
  assumes "distinct (keys (data_vars (struct self)))"
    and "distinct (keys (ds_coords (struct self)))"
  shows "outcome (dataset_read (\<lambda>c r op. Inr (f c r op)) cls self columns) =
           Inr (answered_dataset f cls self columns)"
proof -
  let ?dv = "map (\<lambda>(nm, s). (nm, data_var_source self nm s))
               (selected columns (data_vars (struct self)))"
  let ?co = "map (\<lambda>(nm, s). (nm, ds_coord_source self nm s))
               (selected columns (ds_coords (struct self)))"
  have dv: "dict_merge [] ?dv = ?dv"
    using assms
    by (intro dict_merge_empty)
      (simp add: keys_def comp_def case_prod_unfold distinct_selected [unfolded keys_def])
  have co: "dict_merge [] ?co = ?co"
    using assms
    by (intro dict_merge_empty)
      (simp add: keys_def comp_def case_prod_unfold distinct_selected [unfolded keys_def])
  show ?thesis
    unfolding dataset_read_def Let_def build_data_vars_eq build_coords_eq dv co
    by (simp add: outcome_bind outcome_pair read_data_vars_answered read_coords_answered
        outcome_return answered_dataset_def;
        simp add: case_prod_unfold comp_def dict_merge_map_empty distinct_selected assms)
qed

lemma read_data_vars_keys:
  "outcome (read_data_vars B cls dv acc) = Inr res \<Longrightarrow>
   set (keys res) = set (keys acc) \<union> set (keys dv)"
proof (induction dv arbitrary: acc)
  case Nil
  then show ?case by (simp add: outcome_return keys_Nil)
next
  case (Cons a dv)
  obtain k v where a: "a = (k, v)" by (cases a)
  from Cons.prems obtain x where
    "outcome (read_data_vars B cls dv (dict_set acc k x)) = Inr res"
    by (auto simp: a outcome_bind split: sum.splits)
  from Cons.IH [OF this] show ?case
    by (auto simp: a keys_Cons keys_dict_set split: if_splits)
qed

lemma read_coords_keys:
  "outcome (read_coords B cls co acc) = Inr res \<Longrightarrow>
   set (keys res) = set (keys acc) \<union> set (keys co)"
proof (induction co arbitrary: acc)
  case Nil
  then show ?case by (simp add: outcome_return keys_Nil)
next
  case (Cons a co)
  obtain k v where a: "a = (k, v)" by (cases a)
  from Cons.prems obtain x where
    "outcome (read_coords B cls co (dict_set acc k x)) = Inr res"
    by (auto simp: a outcome_bind split: sum.splits)
  from Cons.IH [OF this] show ?case
    by (auto simp: a keys_Cons keys_dict_set split: if_splits)
qed

lemma keys_dict_merge: "set (keys (dict_merge d e)) = set (keys d) \<union> set (keys e)"
proof (induction e arbitrary: d)
  case Nil
  then show ?case by (simp add: dict_merge_Nil keys_Nil)
next
  case (Cons a e)
  obtain k v where a: "a = (k, v)" by (cases a)
  show ?case by (auto simp: a dict_merge_Cons Cons.IH keys_dict_set keys_Cons)
qed

lemma dataset_read_keys:
  assumes "outcome (dataset_read B cls self columns) = Inr ds"
  shows "set (keys (xds_data_vars ds)) = set (keys (selected columns (data_vars (struct self))))"
    and "set (keys (xds_coords ds)) = set (keys (selected columns (ds_coords (struct self))))"
    and "xds_attrs ds = ds_attrs (struct self)"
proof -
  let ?dv = "dict_merge [] (map (\<lambda>(nm, s). (nm, data_var_source self nm s))
               (selected columns (data_vars (struct self))))"
  let ?co = "dict_merge [] (map (\<lambda>(nm, s). (nm, ds_coord_source self nm s))
               (selected columns (ds_coords (struct self))))"
  from assms obtain dvr cor where
    dvr: "outcome (read_data_vars B cls ?dv []) = Inr dvr" and
    cor: "outcome (read_coords B cls ?co []) = Inr cor" and
    ds: "ds = \<lparr>xds_data_vars = dvr, xds_coords = cor, xds_attrs = ds_attrs (struct self)\<rparr>"
    by (auto simp: dataset_read_def Let_def outcome_bind build_data_vars_eq build_coords_eq
        outcome_pair outcome_return split: sum.splits)
  show "set (keys (xds_data_vars ds)) = set (keys (selected columns (data_vars (struct self))))"
    using read_data_vars_keys [OF dvr]
    by (simp add: ds keys_dict_merge keys_Nil keys_map_entry)
  show "set (keys (xds_coords ds)) = set (keys (selected columns (ds_coords (struct self))))"
    using read_coords_keys [OF cor]
    by (simp add: ds keys_dict_merge keys_Nil keys_map_entry)
  show "xds_attrs ds = ds_attrs (struct self)" by (simp add: ds)
qed

subsection \<open>Column filters\<close>

lemma selected_Some_Nil: "selected (Some []) items = []"
  by (induction items) (auto simp: selected_def skipped_def)

lemma skipped_Some: "skipped (Some cs) nm \<longleftrightarrow> nm \<notin> set cs"
  by (simp add: skipped_def)

lemma selected_cong:
  "(\<And>nm. nm \<in> set (keys items) \<Longrightarrow> skipped c1 nm = skipped c2 nm) \<Longrightarrow>
   selected c1 items = selected c2 items"
  unfolding selected_def keys_def
  by (rule filter_cong) force+

lemma selected_absent:
  "n \<notin> set (keys items) \<Longrightarrow> selected (Some cs) items = selected (Some (removeAll n cs)) items"
  by (rule selected_cong) (auto simp: skipped_Some)

lemma selected_all:
  "set (keys items) \<subseteq> set cs \<Longrightarrow> selected (Some cs) items = items"
  using selected_cong [of items "Some cs" None]
  by (auto simp: skipped_Some selected_None skipped_def)

lemma selected_single_absent: "k \<notin> set (keys items) \<Longrightarrow> selected (Some [k]) items = []"
  by (induction items) (auto simp: selected_def skipped_Some keys_def)

lemma selected_single_present:
  "distinct (keys items) \<Longrightarrow> map_of items k = Some s \<Longrightarrow> selected (Some [k]) items = [(k, s)]"
proof (induction items)
  case Nil
  then show ?case by simp
next
  case (Cons a items)
  obtain nm s' where a: "a = (nm, s')" by (cases a)
  show ?case
  proof (cases "nm = k")
    case True
    with Cons.prems have "k \<notin> set (keys items)" and "s' = s"
      by (auto simp: a keys_def)
    then show ?thesis
      by (simp add: a True selected_Cons skipped_Some selected_single_absent)
  next
    case False
    with Cons show ?thesis
      by (simp add: a selected_Cons skipped_Some keys_def)
  qed
qed

lemma data_var_source_struct: "data_var_source (self\<lparr>struct := x\<rparr>) nm s = data_var_source self nm s"
  by (simp add: data_var_source_def)

lemma ds_coord_source_struct: "ds_coord_source (self\<lparr>struct := x\<rparr>) nm s = ds_coord_source self nm s"
  by (simp add: ds_coord_source_def)

lemma dataset_read_cong:
  "selected c1 (data_vars (struct self)) = selected c2 (data_vars (struct self)) \<Longrightarrow>
   selected c1 (ds_coords (struct self)) = selected c2 (ds_coords (struct self)) \<Longrightarrow>
   dataset_read B cls self c1 = dataset_read B cls self c2"
  by (simp add: dataset_read_def Let_def build_data_vars_eq build_coords_eq)

lemma dataset_read_restrict:
  "dataset_read B cls self (Some cs) =
   dataset_read B cls (self\<lparr>struct := restrict_columns cs (struct self)\<rparr>) None"
  by (simp add: dataset_read_def Let_def build_data_vars_eq build_coords_eq selected_None
      restrict_columns_def data_var_source_struct ds_coord_source_struct)

lemma dataset_read_empty:
  "dataset_read B cls self (Some []) =
     ([], Inr \<lparr>xds_data_vars = [], xds_coords = [], xds_attrs = ds_attrs (struct self)\<rparr>)"
  by (simp add: dataset_read_def Let_def build_data_vars_eq build_coords_eq selected_Some_Nil
      dict_merge_Nil io_bind_pair io_return_def)

lemma dataset_read_nothing_selected:
  "selected columns (data_vars (struct self)) = [] \<Longrightarrow>
   selected columns (ds_coords (struct self)) = [] \<Longrightarrow>
   dataset_read B cls self columns =
     ([], Inr \<lparr>xds_data_vars = [], xds_coords = [], xds_attrs = ds_attrs (struct self)\<rparr>)"
  by (simp add: dataset_read_def Let_def build_data_vars_eq build_coords_eq
      dict_merge_Nil io_bind_pair io_return_def)

lemma dataset_getitem_absent:
  "k \<notin> set (keys (data_vars (struct self))) \<Longrightarrow> k \<notin> set (keys (ds_coords (struct self))) \<Longrightarrow>
   dataset_getitem B cls self (StrKey k) = ([], Inl KeyError)"
  by (simp add: dataset_getitem_def dataset_read_nothing_selected selected_single_absent
      io_bind_pair Dataset_getitem_def dict_get_def io_raise_def)


lemma dataset_getitem_coord:
  assumes "distinct (keys (ds_coords (struct self)))"
    and "map_of (ds_coords (struct self)) k = Some s"
    and "k \<notin> set (keys (data_vars (struct self)))"
  shows "dataset_getitem B cls self (StrKey k) =
     io_bind (new_variable_reader (DS_VARIABLE_READER cls) (ds_coord_source self k s))
       (\<lambda>src. io_bind (variable_read B (DS_VARIABLE_READER cls) src NoSlice)
          (\<lambda>v. io_return (ADataArray \<lparr>da_data = v, da_coords = [(k, v)], da_name = k\<rparr>)))"
proof -
  have co: "selected (Some [k]) (ds_coords (struct self)) = [(k, s)]"
    using assms by (simp add: selected_single_present)
  have dv: "selected (Some [k]) (data_vars (struct self)) = []"
    using assms by (simp add: selected_single_absent)
  show ?thesis
    by (cases "variable_read B (DS_VARIABLE_READER cls) (ds_coord_source self k s) NoSlice")
      (simp add: dataset_getitem_def dataset_read_def Let_def build_data_vars_eq build_coords_eq
        dv co dict_merge_def new_variable_reader_def io_bind_def io_return_def
        Dataset_getitem_def dict_get_def split: sum.splits)
qed


lemma selected_Some_filter: "selected (Some cs) items = filter (\<lambda>(nm, s). nm \<in> set cs) items"
  by (simp add: selected_def skipped_Some)

lemma no_fetch_new_data_array:
  "filter is_fetch (map (\<lambda>(nm, s). NewDataArrayReader c (g nm s)) items) = []"
  by (induction items) auto

lemma no_fetch_new_variable:
  "filter is_fetch (map (\<lambda>(nm, s). NewVariableReader c (g nm s)) items) = []"
  by (induction items) auto

subsection \<open>Coordinate tags\<close>

lemma coord_tag_fresh:
  "''coord'' \<notin> set (keys (params self)) \<Longrightarrow>
   dict_get (params (coord_source self nm var)) ''coord'' = Some nm"
proof -
  assume "''coord'' \<notin> set (keys (params self))"
  then have "map_of (rev (params self)) ''coord'' = None"
    by (simp add: map_of_eq_None_iff keys_def)
  then show ?thesis
    by (simp add: coord_source_def dict_get_def map_of_dict_merge map_add_def)
qed

lemma coord_tag_overridden:
  "distinct (keys (params self)) \<Longrightarrow> dict_get (params self) ''coord'' = Some v \<Longrightarrow>
   dict_get (params (coord_source self nm var)) ''coord'' = Some v"
proof -
  assume d: "distinct (keys (params self))" and g: "dict_get (params self) ''coord'' = Some v"
  from g have "(''coord'', v) \<in> set (params self)"
    by (simp add: dict_get_def map_of_SomeD)
  then have "(''coord'', v) \<in> set (rev (params self))" by simp
  moreover from d have "distinct (map fst (rev (params self)))"
    by (simp add: keys_def rev_map [symmetric])
  ultimately have "map_of (rev (params self)) ''coord'' = Some v"
    by (rule map_of_is_SomeI [rotated])
  then show ?thesis
    by (simp add: coord_source_def dict_get_def map_of_dict_merge map_add_def)
qed

subsection \<open>The two policies\<close>

lemma same_composition_refl: "same_composition m m"
  by (simp add: same_composition_def)

lemma same_composition_bind:
  assumes "same_composition m1 m2" and "\<And>x. same_composition (f1 x) (f2 x)"
  shows "same_composition (io_bind m1 f1) (io_bind m2 f2)"
  using assms
  by (cases "outcome m2") (simp_all add: same_composition_def events_bind outcome_bind)

lemma same_composition_pair:
  "map untagged l1 = map untagged l2 \<Longrightarrow> same_composition (l1, r) (l2, r)"
  by (simp add: same_composition_def events_pair outcome_pair)

lemma backend_any_class:
  "B ClientDaskArrayReader = B ClientArrayReader \<Longrightarrow> B c = B c'"
  by (cases c; cases c') simp_all

lemma same_variable_read:
  "B ClientDaskArrayReader = B ClientArrayReader \<Longrightarrow>
   same_composition (variable_read B c1 self sl) (variable_read B c2 self sl)"
  using backend_any_class [of B "ARRAY_READER c1" "ARRAY_READER c2"]
  by (simp add: variable_read_eq same_composition_pair)

lemma same_variable_read_block:
  "B ClientDaskArrayReader = B ClientArrayReader \<Longrightarrow>
   same_composition (variable_read_block B c1 self block sl)
     (variable_read_block B c2 self block sl)"
  using backend_any_class [of B "ARRAY_READER c1" "ARRAY_READER c2"]
  by (simp add: variable_read_block_eq same_composition_pair)

lemma same_new_variable_reader:
  "same_composition (new_variable_reader c1 r) (new_variable_reader c2 r)"
  by (simp add: new_variable_reader_def same_composition_pair)

lemma same_new_data_array_reader:
  "same_composition (new_data_array_reader c1 r) (new_data_array_reader c2 r)"
  by (simp add: new_data_array_reader_def same_composition_pair)

lemma same_dataarray_read_loop:
  "B ClientDaskArrayReader = B ClientArrayReader \<Longrightarrow>
   same_composition (dataarray_read_loop B c1 self items acc)
     (dataarray_read_loop B c2 self items acc)"
proof (induction items arbitrary: acc)
  case Nil
  then show ?case by (simp add: same_composition_refl)
next
  case (Cons a items)
  obtain coord_slice item where a: "a = (coord_slice, item)" by (cases a)
  show ?case
  proof (cases item)
    case None
    then show ?thesis by (simp add: a same_composition_refl)
  next
    case (Some p)
    obtain nm var where p: "p = (nm, var)" by (cases p)
    show ?thesis
      by (simp add: a Some p)
        (intro same_composition_bind same_new_variable_reader same_variable_read
          Cons.IH Cons.prems)
  qed
qed

lemma same_dataarray_read:
  "B ClientDaskArrayReader = B ClientArrayReader \<Longrightarrow>
   same_composition (dataarray_read B c1 self sl) (dataarray_read B c2 self sl)"
  unfolding dataarray_read_def Let_def
  by (intro same_composition_bind same_new_variable_reader same_variable_read
      same_dataarray_read_loop same_composition_refl)

lemma same_dataarray_read_block:
  "B ClientDaskArrayReader = B ClientArrayReader \<Longrightarrow>
   same_composition (dataarray_read_block B c1 self block sl)
     (dataarray_read_block B c2 self block sl)"
  unfolding dataarray_read_block_def Let_def
  by (intro same_composition_bind same_new_variable_reader same_variable_read_block)

lemma map_untagged_new_variable:
  "map untagged (map (\<lambda>(nm, s). NewVariableReader c (g nm s)) items) =
   map (\<lambda>(nm, s). NewVariableReader ClientDaskVariableReader (g nm s)) items"
  by (induction items) auto

lemma map_untagged_new_data_array:
  "map untagged (map (\<lambda>(nm, s). NewDataArrayReader c (g nm s)) items) =
   map (\<lambda>(nm, s). NewDataArrayReader ClientDaskDataArrayReader (g nm s)) items"
  by (induction items) auto

lemma dataarray_coords_eq:
  "dataarray_coords cls self =
     (map (\<lambda>(nm, s). NewVariableReader (VARIABLE_READER cls) (coord_source self nm s))
        (coords (struct self)),
      Inr (dict_merge [] (map (\<lambda>(nm, s). (nm, coord_source self nm s)) (coords (struct self)))))"
  by (simp add: dataarray_coords_def Let_def dataarray_coords_loop_eq)

lemma same_dataarray_coords:
  "same_composition (dataarray_coords c1 self) (dataarray_coords c2 self)"
  unfolding dataarray_coords_eq
  by (rule same_composition_pair) (simp only: map_untagged_new_variable)

lemma same_build_data_vars:
  "same_composition (build_data_vars c1 self st columns) (build_data_vars c2 self st columns)"
  unfolding build_data_vars_eq
  by (rule same_composition_pair) (simp only: map_untagged_new_data_array)

lemma same_build_coords:
  "same_composition (build_coords c1 self st columns) (build_coords c2 self st columns)"
  unfolding build_coords_eq
  by (rule same_composition_pair) (simp only: map_untagged_new_variable)

lemma same_read_data_vars:
  "B ClientDaskArrayReader = B ClientArrayReader \<Longrightarrow>
   same_composition (read_data_vars B c1 dv acc) (read_data_vars B c2 dv acc)"
proof (induction dv arbitrary: acc)
  case Nil
  then show ?case by (simp add: same_composition_refl)
next
  case (Cons a dv)
  obtain k v where a: "a = (k, v)" by (cases a)
  show ?case
    by (simp add: a) (intro same_composition_bind same_dataarray_read Cons.IH Cons.prems)
qed

lemma same_read_coords:
  "B ClientDaskArrayReader = B ClientArrayReader \<Longrightarrow>
   same_composition (read_coords B c1 co acc) (read_coords B c2 co acc)"
proof (induction co arbitrary: acc)
  case Nil
  then show ?case by (simp add: same_composition_refl)
next
  case (Cons a co)
  obtain k v where a: "a = (k, v)" by (cases a)
  show ?case
    by (simp add: a) (intro same_composition_bind same_variable_read Cons.IH Cons.prems)
qed

lemma same_dataset_read:
  "B ClientDaskArrayReader = B ClientArrayReader \<Longrightarrow>
   same_composition (dataset_read B c1 self columns) (dataset_read B c2 self columns)"
  unfolding dataset_read_def Let_def
  by (intro same_composition_bind same_build_data_vars same_build_coords same_read_data_vars
      same_read_coords same_composition_refl)

lemma same_dataset_getitem:
  "B ClientDaskArrayReader = B ClientArrayReader \<Longrightarrow>
   same_composition (dataset_getitem B c1 self k) (dataset_getitem B c2 self k)"
  unfolding dataset_getitem_def
  by (cases k; simp)
    (intro same_composition_bind same_dataset_read same_composition_refl; assumption)+

lemma echo_backend_classes: "echo_backend ClientDaskArrayReader = echo_backend ClientArrayReader"
  by (rule ext)+ (simp add: echo_backend_def echo_def)

section \<open>The claims\<close>

subsection \<open>Slices and coordinates\<close>




subsection \<open>Slice tuples longer than the coordinates\<close>

text \<open>
  Claim C2 says that no mismatch between the length of the slice tuple and the
  number of coordinates makes \<^verbatim>\<open>read\<close> fail. The code breaks it: whenever the tuple
  is longer than the coordinates, \<^verbatim>\<open>zip_longest\<close> pads the items with the slice
  fill value, the unpacking fails, and \<^verbatim>\<open>read\<close> raises; with every leaf read
  answered the error is \<^verbatim>\<open>TypeError\<close>.
\<close>

theorem dataarray_read_longer_tuple_fails:
  "length (coords (struct self)) < length (normalize_slice sl) \<longrightarrow>
     (\<exists>e. outcome (dataarray_read B cls self sl) = Inl e) \<and>
     outcome (dataarray_read (\<lambda>c r op. Inr (f c r op)) cls self sl) = Inl TypeError"
  by (simp add: dataarray_read_too_long dataarray_read_too_long_answered)

text \<open>
  A two-dimensional array with a coordinate for its first dimension only, read with
  one slice per dimension.
\<close>

theorem dataarray_read_longer_tuple_fails_witness:
  "length (coords (struct (example_reader [] example_image)))
     < length (normalize_slice (SliceSeq [Slice (Some 0) (Some 2) None, Slice (Some 0) (Some 3) None])) \<and>
   outcome (dataarray_read echo_backend ClientDaskDataArrayReader
              (example_reader [] example_image)
              (SliceSeq [Slice (Some 0) (Some 2) None, Slice (Some 0) (Some 3) None]))
     = Inl TypeError"
  using dataarray_read_longer_tuple_fails [of "example_reader [] example_image"
      "SliceSeq [Slice (Some 0) (Some 2) None, Slice (Some 0) (Some 3) None]"
      echo_backend ClientDaskDataArrayReader echo]
  by (simp add: echo_backend_eq normalize_slice_def example_reader_def example_image_def)

subsection \<open>Iteration\<close>

text \<open>
  Claim C3. Iterating a DatasetReader yields exactly the names of the structure's
  data variables, in declared order: the keys of the structure's \<^verbatim>\<open>data_vars\<close>, which
  are the keys of the mapping the \<^verbatim>\<open>data_vars\<close> accessor builds. A coordinate name
  (one that is not also the name of a data variable) is never yielded, even though
  indexing the reader by that name succeeds when its leaf read is answered.
\<close>

theorem dataset_iter_yields_data_vars:
  "dataset_iter self = keys (data_vars (struct self)) \<and>
   (distinct (keys (data_vars (struct self))) \<longrightarrow>
      (\<exists>dv. outcome (dataset_data_vars cls self) = Inr dv \<and> keys dv = dataset_iter self)) \<and>
   (c \<in> set (keys (ds_coords (struct self))) \<and> c \<notin> set (keys (data_vars (struct self))) \<longrightarrow>
      c \<notin> set (dataset_iter self)) \<and>
   (distinct (keys (ds_coords (struct self))) \<and> map_of (ds_coords (struct self)) c = Some s \<and>
    c \<notin> set (keys (data_vars (struct self))) \<longrightarrow>
      c \<notin> set (dataset_iter self) \<and>
      (\<exists>da. outcome (dataset_getitem (\<lambda>c r op. Inr (f c r op)) cls self (StrKey c)) =
         Inr (ADataArray da)))"
proof -
  have a: "dataset_iter self = keys (data_vars (struct self))"
    by (simp add: dataset_iter_def)
  have b: "\<exists>dv. outcome (dataset_data_vars cls self) = Inr dv \<and> keys dv = dataset_iter self"
    if "distinct (keys (data_vars (struct self)))"
    using that
    by (simp add: dataset_data_vars_def Let_def build_data_vars_eq outcome_pair selected_None
        dict_merge_map_empty case_prod_unfold a keys_def comp_def)
  have d: "\<exists>da. outcome (dataset_getitem (\<lambda>c r op. Inr (f c r op)) cls self (StrKey c)) =
        Inr (ADataArray da)"
    if "distinct (keys (ds_coords (struct self)))" "map_of (ds_coords (struct self)) c = Some s"
      "c \<notin> set (keys (data_vars (struct self)))"
    by (simp add: dataset_getitem_coord [OF that] outcome_bind new_variable_reader_def
        outcome_pair variable_read_answered outcome_return)
  from a b d show ?thesis by simp
qed

text \<open>
  The example Dataset: iteration yields \<^verbatim>\<open>temp\<close> only, and \<^verbatim>\<open>ds["x"]\<close> is a DataArray.
\<close>

theorem dataset_iter_yields_data_vars_witness:
  "distinct (keys (data_vars (struct (example_reader [] example_dataset)))) \<and>
   distinct (keys (ds_coords (struct (example_reader [] example_dataset)))) \<and>
   map_of (ds_coords (struct (example_reader [] example_dataset))) ''x''
     = Some (example_variable [''x''] [10]) \<and>
   ''x'' \<in> set (keys (ds_coords (struct (example_reader [] example_dataset)))) \<and>
   ''x'' \<notin> set (keys (data_vars (struct (example_reader [] example_dataset)))) \<and>
   dataset_iter (example_reader [] example_dataset) = [''temp''] \<and>
   ''x'' \<notin> set (dataset_iter (example_reader [] example_dataset)) \<and>
   (\<exists>da. outcome (dataset_getitem echo_backend ClientDaskDatasetReader
                   (example_reader [] example_dataset) (StrKey ''x'')) = Inr (ADataArray da))"
proof -
  let ?self = "example_reader [] example_dataset"
  have h: "distinct (keys (data_vars (struct ?self)))"
    "distinct (keys (ds_coords (struct ?self)))"
    "map_of (ds_coords (struct ?self)) ''x'' = Some (example_variable [''x''] [10])"
    "''x'' \<in> set (keys (ds_coords (struct ?self)))"
    "''x'' \<notin> set (keys (data_vars (struct ?self)))"
    by (simp_all add: example_reader_def example_dataset_def keys_def)
  from dataset_iter_yields_data_vars [of ?self ClientDaskDatasetReader "''x''"
      "example_variable [''x''] [10]" echo] h
  have "dataset_iter ?self = keys (data_vars (struct ?self))"
    and "''x'' \<notin> set (dataset_iter ?self)"
    and "\<exists>da. outcome (dataset_getitem (\<lambda>c r op. Inr (echo c r op)) ClientDaskDatasetReader
             ?self (StrKey ''x'')) = Inr (ADataArray da)"
    by blast+
  moreover have "keys (data_vars (struct ?self)) = [''temp'']"
    by (simp add: example_reader_def example_dataset_def keys_def)
  ultimately show ?thesis
    using h by (simp add: echo_backend_eq)
qed

subsection \<open>Indexing a Dataset\<close>



subsection \<open>Names absent from the structure\<close>

text \<open>
  Claim C5, amended. A requested name that is absent from the structure is skipped
  silently where the sub-readers are constructed: a column filter with the name
  reads what the filter without it reads, and the name alone gives the empty Dataset
  with the structure's attrs, with no reader constructed and no error raised. Under
  a string key the absent name fails with \<^verbatim>\<open>KeyError\<close> only afterwards, when the
  key is extracted from the assembled Dataset, again with no reader constructed.
\<close>

theorem absent_name_is_skipped:
  "n \<notin> set (keys (data_vars (struct self))) \<and> n \<notin> set (keys (ds_coords (struct self))) \<longrightarrow>
     dataset_read B cls self (Some cs) = dataset_read B cls self (Some (removeAll n cs)) \<and>
     dataset_getitem B cls self (ColumnsKey cs) =
       dataset_getitem B cls self (ColumnsKey (removeAll n cs)) \<and>
     dataset_read B cls self (Some [n]) =
       ([], Inr \<lparr>xds_data_vars = [], xds_coords = [], xds_attrs = ds_attrs (struct self)\<rparr>) \<and>
     dataset_getitem B cls self (StrKey n) = ([], Inl KeyError)"
proof (intro impI, elim conjE)
  assume dv: "n \<notin> set (keys (data_vars (struct self)))"
    and co: "n \<notin> set (keys (ds_coords (struct self)))"
  have r: "dataset_read B cls self (Some cs) = dataset_read B cls self (Some (removeAll n cs))"
    by (rule dataset_read_cong) (rule selected_absent [OF dv], rule selected_absent [OF co])
  have g: "dataset_getitem B cls self (ColumnsKey cs) =
       dataset_getitem B cls self (ColumnsKey (removeAll n cs))"
    by (simp add: dataset_getitem_def r)
  have e: "dataset_read B cls self (Some [n]) =
       ([], Inr \<lparr>xds_data_vars = [], xds_coords = [], xds_attrs = ds_attrs (struct self)\<rparr>)"
    by (simp add: dataset_read_nothing_selected selected_single_absent dv co)
  from r g e dataset_getitem_absent [OF dv co]
  show "dataset_read B cls self (Some cs) = dataset_read B cls self (Some (removeAll n cs)) \<and>
     dataset_getitem B cls self (ColumnsKey cs) =
       dataset_getitem B cls self (ColumnsKey (removeAll n cs)) \<and>
     dataset_read B cls self (Some [n]) =
       ([], Inr \<lparr>xds_data_vars = [], xds_coords = [], xds_attrs = ds_attrs (struct self)\<rparr>) \<and>
     dataset_getitem B cls self (StrKey n) = ([], Inl KeyError)"
    by simp
qed

text \<open>The name \<^verbatim>\<open>nope\<close> in the example Dataset.\<close>

theorem absent_name_is_skipped_witness:
  "''nope'' \<notin> set (keys (data_vars (struct (example_reader [] example_dataset)))) \<and>
   ''nope'' \<notin> set (keys (ds_coords (struct (example_reader [] example_dataset)))) \<and>
   dataset_read echo_backend ClientDaskDatasetReader (example_reader [] example_dataset)
       (Some [''nope'', ''x'']) =
     dataset_read echo_backend ClientDaskDatasetReader (example_reader [] example_dataset)
       (Some [''x'']) \<and>
   dataset_getitem echo_backend ClientDaskDatasetReader (example_reader [] example_dataset)
       (StrKey ''nope'') = ([], Inl KeyError)"
proof -
  let ?self = "example_reader [] example_dataset"
  have h: "''nope'' \<notin> set (keys (data_vars (struct ?self)))"
    "''nope'' \<notin> set (keys (ds_coords (struct ?self)))"
    by (simp_all add: example_reader_def example_dataset_def keys_def)
  from absent_name_is_skipped [of "''nope''" ?self echo_backend ClientDaskDatasetReader
      "[''nope'', ''x'']"] h
  show ?thesis by simp
qed

text \<open>
  Claim C5 as stated fails: \<^verbatim>\<open>read(columns=["nope"])\<close> and \<^verbatim>\<open>ds[["nope"]]\<close> raise
  nothing, and the \<^verbatim>\<open>KeyError\<close> of \<^verbatim>\<open>ds["nope"]\<close> comes with no reader constructed.
\<close>

theorem absent_name_counterexample:
  "dataset_read echo_backend ClientDaskDatasetReader (example_reader [] example_dataset)
       (Some [''nope'']) =
     ([], Inr \<lparr>xds_data_vars = [], xds_coords = [], xds_attrs = [(''title'', ''demo'')]\<rparr>) \<and>
   dataset_getitem echo_backend ClientDaskDatasetReader (example_reader [] example_dataset)
       (ColumnsKey [''nope'']) =
     ([], Inr (ADataset
        \<lparr>xds_data_vars = [], xds_coords = [], xds_attrs = [(''title'', ''demo'')]\<rparr>)) \<and>
   dataset_getitem echo_backend ClientDaskDatasetReader (example_reader [] example_dataset)
       (StrKey ''nope'') = ([], Inl KeyError)"
proof -
  let ?self = "example_reader [] example_dataset"
  have h: "''nope'' \<notin> set (keys (data_vars (struct ?self)))"
    "''nope'' \<notin> set (keys (ds_coords (struct ?self)))"
    by (simp_all add: example_reader_def example_dataset_def keys_def)
  have r: "dataset_read echo_backend ClientDaskDatasetReader ?self (Some [''nope'']) =
     ([], Inr \<lparr>xds_data_vars = [], xds_coords = [], xds_attrs = [(''title'', ''demo'')]\<rparr>)"
    by (simp add: dataset_read_nothing_selected selected_single_absent h)
      (simp add: example_reader_def example_dataset_def)
  show ?thesis
    by (simp add: r dataset_getitem_absent h)
      (simp add: dataset_getitem_def r io_bind_pair io_return_def)
qed

subsection \<open>Column filters and accessors\<close>

text \<open>
  Claim C6. Under a column filter the DatasetReader constructs one data-variable
  reader and one coordinate reader per entry of the structure whose name is in the
  filter, and none for any other name; the whole \<^verbatim>\<open>read(columns)\<close> is the unfiltered
  read of the structure with the other entries removed. The \<^verbatim>\<open>data_vars\<close> and
  \<^verbatim>\<open>coords\<close> accessors construct the readers of all entries and request no data.
\<close>

theorem columns_filter_builds_selected_only:
  "build_data_vars cls self (struct self) (Some cs) =
     (map (\<lambda>(nm, s). NewDataArrayReader (DATA_ARRAY_READER cls) (data_var_source self nm s))
        (filter (\<lambda>(nm, s). nm \<in> set cs) (data_vars (struct self))),
      Inr (dict_merge [] (map (\<lambda>(nm, s). (nm, data_var_source self nm s))
             (filter (\<lambda>(nm, s). nm \<in> set cs) (data_vars (struct self)))))) \<and>
   build_coords cls self (struct self) (Some cs) =
     (map (\<lambda>(nm, s). NewVariableReader (DS_VARIABLE_READER cls) (ds_coord_source self nm s))
        (filter (\<lambda>(nm, s). nm \<in> set cs) (ds_coords (struct self))),
      Inr (dict_merge [] (map (\<lambda>(nm, s). (nm, ds_coord_source self nm s))
             (filter (\<lambda>(nm, s). nm \<in> set cs) (ds_coords (struct self)))))) \<and>
   dataset_read B cls self (Some cs) =
     dataset_read B cls (self\<lparr>struct := restrict_columns cs (struct self)\<rparr>) None \<and>
   dataset_data_vars cls self =
     (map (\<lambda>(nm, s). NewDataArrayReader (DATA_ARRAY_READER cls) (data_var_source self nm s))
        (data_vars (struct self)),
      Inr (dict_merge [] (map (\<lambda>(nm, s). (nm, data_var_source self nm s))
             (data_vars (struct self))))) \<and>
   dataset_coords cls self =
     (map (\<lambda>(nm, s). NewVariableReader (DS_VARIABLE_READER cls) (ds_coord_source self nm s))
        (ds_coords (struct self)),
      Inr (dict_merge [] (map (\<lambda>(nm, s). (nm, ds_coord_source self nm s))
             (ds_coords (struct self))))) \<and>
   filter is_fetch (events (dataset_data_vars cls self)) = [] \<and>
   filter is_fetch (events (dataset_coords cls self)) = []"
proof -
  have dv: "dataset_data_vars cls self =
     (map (\<lambda>(nm, s). NewDataArrayReader (DATA_ARRAY_READER cls) (data_var_source self nm s))
        (data_vars (struct self)),
      Inr (dict_merge [] (map (\<lambda>(nm, s). (nm, data_var_source self nm s))
             (data_vars (struct self)))))"
    by (simp add: dataset_data_vars_def Let_def build_data_vars_eq selected_None)
  have co: "dataset_coords cls self =
     (map (\<lambda>(nm, s). NewVariableReader (DS_VARIABLE_READER cls) (ds_coord_source self nm s))
        (ds_coords (struct self)),
      Inr (dict_merge [] (map (\<lambda>(nm, s). (nm, ds_coord_source self nm s))
             (ds_coords (struct self)))))"
    by (simp add: dataset_coords_def Let_def build_coords_eq selected_None)
  have f1: "filter is_fetch (events (dataset_data_vars cls self)) = []"
    unfolding dv events_pair by (rule no_fetch_new_data_array)
  have f2: "filter is_fetch (events (dataset_coords cls self)) = []"
    unfolding co events_pair by (rule no_fetch_new_variable)
  have b1: "build_data_vars cls self (struct self) (Some cs) =
     (map (\<lambda>(nm, s). NewDataArrayReader (DATA_ARRAY_READER cls) (data_var_source self nm s))
        (filter (\<lambda>(nm, s). nm \<in> set cs) (data_vars (struct self))),
      Inr (dict_merge [] (map (\<lambda>(nm, s). (nm, data_var_source self nm s))
             (filter (\<lambda>(nm, s). nm \<in> set cs) (data_vars (struct self))))))"
    by (simp only: build_data_vars_eq selected_Some_filter)
  have b2: "build_coords cls self (struct self) (Some cs) =
     (map (\<lambda>(nm, s). NewVariableReader (DS_VARIABLE_READER cls) (ds_coord_source self nm s))
        (filter (\<lambda>(nm, s). nm \<in> set cs) (ds_coords (struct self))),
      Inr (dict_merge [] (map (\<lambda>(nm, s). (nm, ds_coord_source self nm s))
             (filter (\<lambda>(nm, s). nm \<in> set cs) (ds_coords (struct self))))))"
    by (simp only: build_coords_eq selected_Some_filter)
  from b1 b2 dataset_read_restrict [of B cls self cs] dv co f1 f2 show ?thesis
    by (intro conjI)
qed

text \<open>
  The example Dataset under \<^verbatim>\<open>columns=["temp"]\<close>: one reader, for \<^verbatim>\<open>temp\<close>; the
  \<^verbatim>\<open>coords\<close> accessor still exposes x and y.
\<close>

theorem columns_filter_builds_selected_only_witness:
  "build_data_vars ClientDaskDatasetReader (example_reader [] example_dataset) example_dataset
     (Some [''temp'']) =
     ([NewDataArrayReader ClientDaskDataArrayReader
         (example_reader [(''variable'', ''temp'')] example_temp)],
      Inr [(''temp'', example_reader [(''variable'', ''temp'')] example_temp)]) \<and>
   build_coords ClientDaskDatasetReader (example_reader [] example_dataset) example_dataset
     (Some [''temp'']) = ([], Inr []) \<and>
   dataset_coords ClientDaskDatasetReader (example_reader [] example_dataset) =
     ([NewVariableReader ClientDaskVariableReader
         (example_reader [(''variable'', ''x'')] (example_variable [''x''] [10])),
       NewVariableReader ClientDaskVariableReader
         (example_reader [(''variable'', ''y'')] (example_variable [''y''] [5]))],
      Inr [(''x'', example_reader [(''variable'', ''x'')] (example_variable [''x''] [10])),
           (''y'', example_reader [(''variable'', ''y'')] (example_variable [''y''] [5]))])"
  using columns_filter_builds_selected_only [of ClientDaskDatasetReader
      "example_reader [] example_dataset" "[''temp'']" echo_backend]
  by (simp add: example_reader_def example_dataset_def data_var_source_def ds_coord_source_def
      dict_merge_def)

subsection \<open>Lengths\<close>

text \<open>
  Claim C7. For a VariableReader and for a DataArrayReader whose underlying array has
  rank at least 1, \<^verbatim>\<open>__len__\<close> returns the size of the first dimension recorded in
  the structure's shape; for a rank-0 array it fails, with the \<^verbatim>\<open>IndexError\<close> of
  \<^verbatim>\<open>shape[0]\<close>.
\<close>

theorem length_first_dimension:
  "(0 < length (shape (data (struct v))) \<longrightarrow>
      variable_len v = Inr (shape (data (struct v)) ! 0)) \<and>
   (length (shape (data (struct v))) = 0 \<longrightarrow> variable_len v = Inl IndexError) \<and>
   (0 < length (shape (data (variable (struct d)))) \<longrightarrow>
      dataarray_len d = Inr (shape (data (variable (struct d))) ! 0)) \<and>
   (length (shape (data (variable (struct d)))) = 0 \<longrightarrow> dataarray_len d = Inl IndexError)"
  by (simp add: variable_len_def dataarray_len_def first_dim_def split: list.splits)

text \<open>Arrays of rank 1, 2 and 0.\<close>

theorem length_first_dimension_witness:
  "variable_len (example_reader [] (example_variable [''x''] [10])) = Inr 10 \<and>
   variable_len (example_reader [] (example_variable [] [])) = Inl IndexError \<and>
   dataarray_len (example_reader [] example_temp) = Inr 10 \<and>
   dataarray_len (example_reader []
      \<lparr>variable = example_variable [] [], coords = [], name = ''scalar''\<rparr>) = Inl IndexError"
proof -
  have a: "variable_len (example_reader [] (example_variable [''x''] [10])) = Inr 10"
    and c: "dataarray_len (example_reader [] example_temp) = Inr 10"
    using length_first_dimension [of "example_reader [] (example_variable [''x''] [10])"
        "example_reader [] example_temp"]
    by (simp_all add: example_reader_def example_variable_def example_temp_def)
  have b: "variable_len (example_reader [] (example_variable [] [])) = Inl IndexError"
    and d: "dataarray_len (example_reader []
      \<lparr>variable = example_variable [] [], coords = [], name = ''scalar''\<rparr>) = Inl IndexError"
    using length_first_dimension [of "example_reader [] (example_variable [] [])"
        "example_reader [] \<lparr>variable = example_variable [] [], coords = [], name = ''scalar''\<rparr>"]
    by (simp_all add: example_reader_def example_variable_def)
  from a b c d show ?thesis by simp
qed

subsection \<open>The coordinates accessor\<close>

text \<open>
  Claim C8, amended. \<^verbatim>\<open>DataArrayReader.coords\<close> constructs one VariableReader per
  coordinate of the structure, in order, over that coordinate's structure, returns
  the mapping from the coordinate names to them, and requests no data. The request
  parameters of the reader for a coordinate hold \<^verbatim>\<open>coord=<name>\<close> provided the
  DataArrayReader's own parameters hold no \<^verbatim>\<open>coord\<close> entry; an own \<^verbatim>\<open>coord\<close> entry
  takes precedence over the tag.
\<close>

theorem dataarray_coords_tagged:
  "events (dataarray_coords cls self) =
     map (\<lambda>(nm, var). NewVariableReader (VARIABLE_READER cls) (coord_source self nm var))
       (coords (struct self)) \<and>
   filter is_fetch (events (dataarray_coords cls self)) = [] \<and>
   (distinct (keys (coords (struct self))) \<longrightarrow>
      outcome (dataarray_coords cls self) =
        Inr (map (\<lambda>(nm, var). (nm, coord_source self nm var)) (coords (struct self)))) \<and>
   struct (coord_source self nm var) = var \<and>
   (''coord'' \<notin> set (keys (params self)) \<longrightarrow>
      dict_get (params (coord_source self nm var)) ''coord'' = Some nm) \<and>
   (distinct (keys (params self)) \<and> dict_get (params self) ''coord'' = Some v \<longrightarrow>
      dict_get (params (coord_source self nm var)) ''coord'' = Some v)"
proof -
  have e: "events (dataarray_coords cls self) =
     map (\<lambda>(nm, var). NewVariableReader (VARIABLE_READER cls) (coord_source self nm var))
       (coords (struct self))"
    by (simp add: dataarray_coords_eq events_pair)
  have f: "filter is_fetch (events (dataarray_coords cls self)) = []"
    unfolding e by (rule no_fetch_new_variable)
  have o: "outcome (dataarray_coords cls self) =
        Inr (map (\<lambda>(nm, var). (nm, coord_source self nm var)) (coords (struct self)))"
    if "distinct (keys (coords (struct self)))"
    using that
    by (simp add: dataarray_coords_eq outcome_pair dict_merge_map_empty case_prod_unfold)
  have s: "struct (coord_source self nm var) = var"
    by (simp add: coord_source_def)
  from e f o s coord_tag_fresh [of self nm var] coord_tag_overridden [of self v nm var]
  show ?thesis by blast
qed

text \<open>
  The coordinates of \<^verbatim>\<open>temp\<close>, once under the parameters \<^verbatim>\<open>page=2\<close> and once under
  an own \<^verbatim>\<open>coord=other\<close>.
\<close>

theorem dataarray_coords_tagged_witness:
  "distinct (keys (coords (struct (example_reader [(''page'', ''2'')] example_temp)))) \<and>
   ''coord'' \<notin> set (keys (params (example_reader [(''page'', ''2'')] example_temp))) \<and>
   outcome (dataarray_coords ClientDaskDataArrayReader
              (example_reader [(''page'', ''2'')] example_temp)) =
     Inr [(''x'', example_reader [(''coord'', ''x''), (''page'', ''2'')]
                    (example_variable [''x''] [10])),
          (''y'', example_reader [(''coord'', ''y''), (''page'', ''2'')]
                    (example_variable [''y''] [5]))] \<and>
   dict_get (params (coord_source (example_reader [(''page'', ''2'')] example_temp) ''x''
                       (example_variable [''x''] [10]))) ''coord'' = Some ''x'' \<and>
   distinct (keys (params (example_reader [(''coord'', ''other'')] example_temp))) \<and>
   dict_get (params (example_reader [(''coord'', ''other'')] example_temp)) ''coord'' =
     Some ''other'' \<and>
   dict_get (params (coord_source (example_reader [(''coord'', ''other'')] example_temp) ''x''
                       (example_variable [''x''] [10]))) ''coord'' = Some ''other''"
proof -
  let ?self = "example_reader [(''page'', ''2'')] example_temp"
  let ?other = "example_reader [(''coord'', ''other'')] example_temp"
  have h: "distinct (keys (coords (struct ?self)))"
    "''coord'' \<notin> set (keys (params ?self))"
    "distinct (keys (params ?other))"
    "dict_get (params ?other) ''coord'' = Some ''other''"
    by (simp_all add: example_reader_def example_temp_def keys_def dict_get_def)
  from dataarray_coords_tagged [of ClientDaskDataArrayReader ?self "''x''"
      "example_variable [''x''] [10]" "''other''"] h
  have a: "outcome (dataarray_coords ClientDaskDataArrayReader ?self) =
        Inr (map (\<lambda>(nm, var). (nm, coord_source ?self nm var)) (coords (struct ?self)))"
    and b: "dict_get (params (coord_source ?self ''x'' (example_variable [''x''] [10]))) ''coord''
        = Some ''x''"
    by blast+
  from dataarray_coords_tagged [of ClientDaskDataArrayReader ?other "''x''"
      "example_variable [''x''] [10]" "''other''"] h
  have c: "dict_get (params (coord_source ?other ''x'' (example_variable [''x''] [10]))) ''coord''
        = Some ''other''"
    by blast
  have "map (\<lambda>(nm, var). (nm, coord_source ?self nm var)) (coords (struct ?self)) =
     [(''x'', example_reader [(''coord'', ''x''), (''page'', ''2'')]
                    (example_variable [''x''] [10])),
      (''y'', example_reader [(''coord'', ''y''), (''page'', ''2'')]
                    (example_variable [''y''] [5]))]"
    by (simp add: example_reader_def example_temp_def coord_source_def dict_merge_def)
  with a b c h show ?thesis by simp
qed

text \<open>
  Claim C8 as stated fails: \<^verbatim>\<open>{"coord": name, **self._params}\<close> lets an own
  \<^verbatim>\<open>coord\<close> parameter overwrite the tag, so the reader for x carries \<^verbatim>\<open>coord=other\<close>.
\<close>

theorem dataarray_coords_tag_counterexample:
  "outcome (dataarray_coords ClientDaskDataArrayReader
              (example_reader [(''coord'', ''other'')] example_temp)) =
     Inr [(''x'', example_reader [(''coord'', ''other'')] (example_variable [''x''] [10])),
          (''y'', example_reader [(''coord'', ''other'')] (example_variable [''y''] [5]))] \<and>
   dict_get (params (example_reader [(''coord'', ''other'')] (example_variable [''x''] [10])))
     ''coord'' \<noteq> Some ''x''"
  by (simp add: dataarray_coords_eq outcome_pair example_reader_def example_temp_def
      coord_source_def dict_merge_def dict_get_def)

subsection \<open>Policy variants\<close>

text \<open>
  Claim C9. The dask classes and their subclasses differ only in the class
  attributes, which select the dask leaf reader at every level of the one and the
  eager leaf reader at every level of the other. When the two leaf readers answer
  every request alike, each read, read_block, indexing and accessor of a dask class
  and of its subclass is the same composition: the same readers are constructed and
  the same requests made, in the same order, with the same outcome. (The lengths
  and the iteration do not depend on the class at all.)
\<close>

theorem policy_variants_same_composition:
  "ARRAY_READER (VARIABLE_READER (DATA_ARRAY_READER ClientDaskDatasetReader)) = ClientDaskArrayReader \<and>
   ARRAY_READER (DS_VARIABLE_READER ClientDaskDatasetReader) = ClientDaskArrayReader \<and>
   ARRAY_READER (VARIABLE_READER (DATA_ARRAY_READER ClientDatasetReader)) = ClientArrayReader \<and>
   ARRAY_READER (DS_VARIABLE_READER ClientDatasetReader) = ClientArrayReader \<and>
   (B ClientDaskArrayReader = B ClientArrayReader \<longrightarrow>
      same_composition (variable_read B ClientDaskVariableReader v sl)
        (variable_read B ClientVariableReader v sl) \<and>
      same_composition (variable_read_block B ClientDaskVariableReader v block sl)
        (variable_read_block B ClientVariableReader v block sl) \<and>
      same_composition (variable_getitem B ClientDaskVariableReader v sl)
        (variable_getitem B ClientVariableReader v sl) \<and>
      same_composition (dataarray_read B ClientDaskDataArrayReader d sl)
        (dataarray_read B ClientDataArrayReader d sl) \<and>
      same_composition (dataarray_read_block B ClientDaskDataArrayReader d block sl)
        (dataarray_read_block B ClientDataArrayReader d block sl) \<and>
      same_composition (dataarray_getitem B ClientDaskDataArrayReader d sl)
        (dataarray_getitem B ClientDataArrayReader d sl) \<and>
      same_composition (dataarray_coords ClientDaskDataArrayReader d)
        (dataarray_coords ClientDataArrayReader d) \<and>
      same_composition (dataset_data_vars ClientDaskDatasetReader s)
        (dataset_data_vars ClientDatasetReader s) \<and>
      same_composition (dataset_coords ClientDaskDatasetReader s)
        (dataset_coords ClientDatasetReader s) \<and>
      same_composition (dataset_read B ClientDaskDatasetReader s columns)
        (dataset_read B ClientDatasetReader s columns) \<and>
      same_composition (dataset_getitem B ClientDaskDatasetReader s k)
        (dataset_getitem B ClientDatasetReader s k))"
  by (simp add: same_variable_read same_variable_read_block variable_getitem_def
      same_dataarray_read same_dataarray_read_block dataarray_getitem_def same_dataarray_coords
      dataset_data_vars_def dataset_coords_def same_build_data_vars same_build_coords
      same_dataset_read same_dataset_getitem)

text \<open>The example Dataset read in full under both policies of the echoing leaf reader.\<close>

theorem policy_variants_same_composition_witness:
  "echo_backend ClientDaskArrayReader = echo_backend ClientArrayReader \<and>
   outcome (dataset_read echo_backend ClientDaskDatasetReader
              (example_reader [] example_dataset) None) =
   outcome (dataset_read echo_backend ClientDatasetReader
              (example_reader [] example_dataset) None) \<and>
   outcome (dataset_read echo_backend ClientDatasetReader
              (example_reader [] example_dataset) None) =
     Inr (answered_dataset echo ClientDatasetReader (example_reader [] example_dataset) None)"
proof -
  let ?self = "example_reader [] example_dataset"
  from policy_variants_same_composition [of echo_backend
      "example_reader [] (example_variable [''x''] [10])" NoSlice "[]"
      "example_reader [] example_temp" ?self None "StrKey ''temp''"] echo_backend_classes
  have "same_composition (dataset_read echo_backend ClientDaskDatasetReader ?self None)
        (dataset_read echo_backend ClientDatasetReader ?self None)"
    by blast
  then have "outcome (dataset_read echo_backend ClientDaskDatasetReader ?self None) =
     outcome (dataset_read echo_backend ClientDatasetReader ?self None)"
    by (simp add: same_composition_def)
  moreover have "outcome (dataset_read echo_backend ClientDatasetReader ?self None) =
     Inr (answered_dataset echo ClientDatasetReader ?self None)"
    unfolding echo_backend_eq
    by (rule dataset_read_answered)
      (simp_all add: example_reader_def example_dataset_def keys_def)
  ultimately show ?thesis
    using echo_backend_classes by simp
qed

subsection \<open>No filter and the empty filter\<close>

text \<open>
  Claim C10. \<^verbatim>\<open>read(columns=[])\<close> filters every data variable and every coordinate
  out: it constructs no reader and yields the Dataset without data variables and
  coordinates that carries the structure's attrs. \<^verbatim>\<open>read(columns=None)\<close> filters
  nothing: it is the read under the filter of all names, a result of it holds every
  data variable and every coordinate of the structure, and with the leaf reads
  answered it returns that Dataset.
\<close>

theorem columns_none_versus_empty:
  "dataset_read B cls self (Some []) =
     ([], Inr \<lparr>xds_data_vars = [], xds_coords = [], xds_attrs = ds_attrs (struct self)\<rparr>) \<and>
   dataset_read B cls self None =
     dataset_read B cls self
       (Some (keys (data_vars (struct self)) @ keys (ds_coords (struct self)))) \<and>
   (outcome (dataset_read B cls self None) = Inr ds \<longrightarrow>
      set (keys (xds_data_vars ds)) = set (keys (data_vars (struct self))) \<and>
      set (keys (xds_coords ds)) = set (keys (ds_coords (struct self))) \<and>
      xds_attrs ds = ds_attrs (struct self)) \<and>
   (distinct (keys (data_vars (struct self))) \<and> distinct (keys (ds_coords (struct self))) \<longrightarrow>
      outcome (dataset_read (\<lambda>c r op. Inr (f c r op)) cls self None) =
        Inr (answered_dataset f cls self None) \<and>
      keys (xds_data_vars (answered_dataset f cls self None)) = keys (data_vars (struct self)) \<and>
      keys (xds_coords (answered_dataset f cls self None)) = keys (ds_coords (struct self)))"
proof -
  have all: "dataset_read B cls self None =
     dataset_read B cls self
       (Some (keys (data_vars (struct self)) @ keys (ds_coords (struct self))))"
    by (rule dataset_read_cong) (simp_all add: selected_None selected_all)
  have ks: "set (keys (xds_data_vars ds)) = set (keys (data_vars (struct self))) \<and>
      set (keys (xds_coords ds)) = set (keys (ds_coords (struct self))) \<and>
      xds_attrs ds = ds_attrs (struct self)"
    if "outcome (dataset_read B cls self None) = Inr ds"
    using dataset_read_keys [OF that] by (simp add: selected_None)
  have k1: "keys (xds_data_vars (answered_dataset f cls self None)) = keys (data_vars (struct self))"
    by (simp add: answered_dataset_def selected_None keys_def comp_def case_prod_unfold)
  have k2: "keys (xds_coords (answered_dataset f cls self None)) = keys (ds_coords (struct self))"
    by (simp add: answered_dataset_def selected_None keys_def comp_def case_prod_unfold)
  from dataset_read_empty [of B cls self] all ks k1 k2 dataset_read_answered [of self f cls None]
  show ?thesis by blast
qed

text \<open>The example Dataset under \<^verbatim>\<open>columns=[]\<close> and under \<^verbatim>\<open>columns=None\<close>.\<close>

theorem columns_none_versus_empty_witness:
  "distinct (keys (data_vars (struct (example_reader [] example_dataset)))) \<and>
   distinct (keys (ds_coords (struct (example_reader [] example_dataset)))) \<and>
   dataset_read echo_backend ClientDaskDatasetReader (example_reader [] example_dataset)
       (Some []) =
     ([], Inr \<lparr>xds_data_vars = [], xds_coords = [], xds_attrs = [(''title'', ''demo'')]\<rparr>) \<and>
   outcome (dataset_read echo_backend ClientDaskDatasetReader
              (example_reader [] example_dataset) None) =
     Inr (answered_dataset echo ClientDaskDatasetReader (example_reader [] example_dataset) None) \<and>
   keys (xds_data_vars (answered_dataset echo ClientDaskDatasetReader
                          (example_reader [] example_dataset) None)) = [''temp''] \<and>
   keys (xds_coords (answered_dataset echo ClientDaskDatasetReader
                       (example_reader [] example_dataset) None)) = [''x'', ''y'']"
proof -
  let ?self = "example_reader [] example_dataset"
  have h: "distinct (keys (data_vars (struct ?self)))" "distinct (keys (ds_coords (struct ?self)))"
    by (simp_all add: example_reader_def example_dataset_def keys_def)
  from columns_none_versus_empty [of "\<lambda>c r op. Inr (echo c r op)" ClientDaskDatasetReader ?self
      "answered_dataset echo ClientDaskDatasetReader ?self None" echo] h
  have a: "dataset_read (\<lambda>c r op. Inr (echo c r op)) ClientDaskDatasetReader ?self (Some []) =
     ([], Inr \<lparr>xds_data_vars = [], xds_coords = [], xds_attrs = ds_attrs (struct ?self)\<rparr>)"
    and b: "outcome (dataset_read (\<lambda>c r op. Inr (echo c r op)) ClientDaskDatasetReader ?self None)
       = Inr (answered_dataset echo ClientDaskDatasetReader ?self None)"
    and c: "keys (xds_data_vars (answered_dataset echo ClientDaskDatasetReader ?self None)) =
       keys (data_vars (struct ?self))"
    and d: "keys (xds_coords (answered_dataset echo ClientDaskDatasetReader ?self None)) =
       keys (ds_coords (struct ?self))"
    by blast+
  have e: "ds_attrs (struct ?self) = [(''title'', ''demo'')]"
    "keys (data_vars (struct ?self)) = [''temp'']"
    "keys (ds_coords (struct ?self)) = [''x'', ''y'']"
    by (simp_all add: example_reader_def example_dataset_def keys_def)
  from a b c d h show ?thesis
    by (simp add: echo_backend_eq e)
qed

end
